theory Spec2Isabelle
  imports Complex_Main "HOL-Library.AList"
begin

section \<open>Chrono Farmer: lifecycle engine, travel machine, event bus and state store\<close>

text \<open>
  Numbers of the JavaScript source are modelled as exact rationals (\<open>rat\<close>): the
  model leaves out the rounding of IEEE doubles. Timestamps come from \<open>Date.now()\<close>
  and random draws from \<open>Math.random()\<close>; both are parameters of the functions that
  read them. A nullable timestamp is a \<open>rat option\<close>, \<open>None\<close> being \<open>null\<close>.
  The division of the growth formula is the source's when \<open>growTime\<close> and the
  growth multiplier are not zero, as in every catalogue entry and era.
\<close>

subsection \<open>PlantSystem: data\<close>

text \<open>The values \<open>plot.state\<close> takes (schema of the state store, Plot component).\<close>

datatype plot_state = Empty | Planted | Growing | Ready | Harvested

text \<open>A JavaScript value that is either a number or a plain object of numbers.\<close>

datatype jsval = JNumber rat | JObject "(string \<times> rat) list"

record harvest_yield =
  seeds :: rat
  resources :: "(string \<times> rat) list"

text \<open>An entry of \<open>window.plantData\<close> (the fields PlantSystem reads).\<close>

record plant_data =
  pd_name :: string
  pd_era :: string
  pd_growTime :: rat
  pd_stages :: int
  pd_harvestYield :: "harvest_yield option"

text \<open>The plant object that \<open>plantSeed\<close> builds and stores in the plot.\<close>

record plant =
  ptype :: string
  name :: string
  era :: string
  growTime :: rat
  maxStages :: int
  harvestYield :: harvest_yield

record plot =
  plot_id :: int
  plant :: "plant option"
  state :: plot_state
  plantedAt :: "rat option"
  lastWatered :: "rat option"
  growthStage :: int
  maxGrowthStage :: int
  waterLevel :: rat
  nutrients :: rat

text \<open>
  The object literal \<open>updates\<close> handed to \<open>updatePlot\<close>: a field is \<open>None\<close> when the
  literal does not mention it.
\<close>

record plot_updates =
  u_plant :: "plant option option"
  u_state :: "plot_state option"
  u_plantedAt :: "rat option option"
  u_lastWatered :: "rat option option"
  u_growthStage :: "int option"
  u_maxGrowthStage :: "int option"
  u_waterLevel :: "rat option"
  u_nutrients :: "rat option"

definition no_updates :: plot_updates where
  "no_updates = \<lparr>u_plant = None, u_state = None, u_plantedAt = None, u_lastWatered = None,
     u_growthStage = None, u_maxGrowthStage = None, u_waterLevel = None, u_nutrients = None\<rparr>"

text \<open>The spread \<open>{ ...plots[index], ...updates }\<close>.\<close>

definition apply_updates :: "plot \<Rightarrow> plot_updates \<Rightarrow> plot" where
  "apply_updates p u =
     p\<lparr>plant := (case u_plant u of None \<Rightarrow> plant p | Some v \<Rightarrow> v),
       state := (case u_state u of None \<Rightarrow> state p | Some v \<Rightarrow> v),
       plantedAt := (case u_plantedAt u of None \<Rightarrow> plantedAt p | Some v \<Rightarrow> v),
       lastWatered := (case u_lastWatered u of None \<Rightarrow> lastWatered p | Some v \<Rightarrow> v),
       growthStage := (case u_growthStage u of None \<Rightarrow> growthStage p | Some v \<Rightarrow> v),
       maxGrowthStage := (case u_maxGrowthStage u of None \<Rightarrow> maxGrowthStage p | Some v \<Rightarrow> v),
       waterLevel := (case u_waterLevel u of None \<Rightarrow> waterLevel p | Some v \<Rightarrow> v),
       nutrients := (case u_nutrients u of None \<Rightarrow> nutrients p | Some v \<Rightarrow> v)\<rparr>"

text \<open>An entry of the \<open>activePlants\<close> map: the plant with the copied plot fields.\<close>

record active_plant =
  ap_plant :: plant
  ap_plantedAt :: "rat option"
  ap_lastWatered :: "rat option"
  ap_growthStage :: int
  ap_waterLevel :: rat
  ap_nutrients :: rat

text \<open>
  A number that may fail to be finite. Only the progress that \<open>accelerateGrowth\<close>
  reports is kept in this form: its division is by a grow time that may be 0.
\<close>

datatype js_number = Finite rat | NegInfinity | NotANumber

text \<open>The events PlantSystem emits on the event bus, in the order of emission.\<close>

datatype plant_event =
    PlantError int string
  | PlantPlanted int plant rat
  | PlantWatered int rat rat
  | PlantHarvested int plant jsval "(string \<times> rat) list" rat
  | PlantGrowth int int rat
  | PlantReady int rat
  | PlantAccelerated int js_number rat rat
  | NotificationShow string

text \<open>
  The state PlantSystem works on: the paths \<open>farm.plots\<close>,
  \<open>player.inventory.seeds\<close> and \<open>player.inventory.resources\<close> of the state store,
  and the system's own fields.
\<close>

record game =
  plots :: "plot list"
  inv_seeds :: "(string \<times> rat) list"
  inv_resources :: "(string \<times> rat) list"
  activePlants :: "(int \<times> active_plant) list"
  growthMultiplier :: rat
  updateTimer :: rat
  enableWatering :: bool
  enableNutrients :: bool
  events :: "plant_event list"

type_synonym catalog = "string \<Rightarrow> plant_data option"

definition updateInterval :: rat where "updateInterval = 1000"
definition waterDecayRate :: rat where "waterDecayRate = 1 / 2"
definition nutrientDecayRate :: rat where "nutrientDecayRate = 3 / 10"

text \<open>\<open>stateManager.get(path, 0)\<close> on an inventory counter.\<close>

definition inv_get :: "(string \<times> rat) list \<Rightarrow> string \<Rightarrow> rat" where
  "inv_get m k = (case map_of m k of None \<Rightarrow> 0 | Some v \<Rightarrow> v)"

definition emit :: "plant_event \<Rightarrow> game \<Rightarrow> game" where
  "emit e g = g\<lparr>events := events g @ [e]\<rparr>"

text \<open>\<open>plots.find(p => p.id === plotId)\<close>.\<close>

definition getPlot :: "game \<Rightarrow> int \<Rightarrow> plot option" where
  "getPlot g plotId = find (\<lambda>p. plot_id p = plotId) (plots g)"

text \<open>
  \<open>updatePlot\<close>: the first plot with that id is replaced by the spread; nothing
  happens when there is none.
\<close>

fun update_first :: "int \<Rightarrow> plot_updates \<Rightarrow> plot list \<Rightarrow> plot list" where
  "update_first plotId u [] = []"
| "update_first plotId u (p # ps) =
     (if plot_id p = plotId then apply_updates p u # ps else p # update_first plotId u ps)"

definition updatePlot :: "int \<Rightarrow> plot_updates \<Rightarrow> game \<Rightarrow> game" where
  "updatePlot plotId u g = g\<lparr>plots := update_first plotId u (plots g)\<rparr>"

subsection \<open>PlantSystem: growth\<close>

record growth_result =
  newStage :: int
  stageChanged :: bool
  isReady :: bool
  progress :: rat

text \<open>\<open>now - plot.plantedAt\<close>: \<open>null\<close> counts as 0 in a subtraction.\<close>

definition null_as_zero :: "rat option \<Rightarrow> rat" where
  "null_as_zero t = (case t of None \<Rightarrow> 0 | Some v \<Rightarrow> v)"

text \<open>\<open>t || now\<close>: \<open>null\<close> and 0 are falsy.\<close>

definition or_now :: "rat option \<Rightarrow> rat \<Rightarrow> rat" where
  "or_now t now = (case t of None \<Rightarrow> now | Some v \<Rightarrow> if v = 0 then now else v)"

text \<open>
  \<open>calculateGrowth\<close>. The result is \<open>None\<close> when \<open>getPlantData\<close> finds no entry:
  the source then throws a TypeError at \<open>plantData.growTime\<close>.
\<close>

definition calculateGrowth :: "catalog \<Rightarrow> rat \<Rightarrow> plot \<Rightarrow> plant \<Rightarrow> rat \<Rightarrow> growth_result option" where
  "calculateGrowth cat mult p pl now =
     (case cat (ptype pl) of
        None \<Rightarrow> None
      | Some plantData \<Rightarrow>
          let timeSincePlanted = now - null_as_zero (plantedAt p);
              waterFactor = max (1 / 10) (waterLevel p / 100);
              nutrientFactor = max (1 / 10) (nutrients p / 100);
              environmentFactor = waterFactor * nutrientFactor;
              baseGrowTime = pd_growTime plantData;
              adjustedGrowTime = baseGrowTime / (environmentFactor * mult);
              progress = min 1 (timeSincePlanted / adjustedGrowTime);
              newStage = \<lfloor>progress * of_int (maxStages pl)\<rfloor>
          in Some \<lparr>newStage = newStage,
                   stageChanged = (newStage > growthStage p),
                   isReady = (progress \<ge> 1),
                   progress = progress\<rparr>)"

subsection \<open>PlantSystem: operations\<close>

text \<open>
  Every operation takes the state and returns its result with the new state. An emitted
  event is appended to \<open>events\<close>; what the listeners of the bus do is outside PlantSystem.
  The state manager and the event bus are present (\<open>init\<close> has run).
\<close>

definition default_yield :: harvest_yield where
  "default_yield = \<lparr>seeds = 1, resources = []\<rparr>"

definition plantSeed :: "catalog \<Rightarrow> int \<Rightarrow> string \<Rightarrow> rat \<Rightarrow> game \<Rightarrow> bool \<times> game" where
  "plantSeed cat plotId seedType now g =
     (case getPlot g plotId of
        None \<Rightarrow> (False, emit (PlantError plotId ''Plot ocupado'') g)
      | Some p \<Rightarrow>
          if state p \<noteq> Empty then (False, emit (PlantError plotId ''Plot ocupado'') g)
          else
            let seedCount = inv_get (inv_seeds g) seedType in
            if seedCount \<le> 0 then (False, emit (PlantError plotId ''Sin semillas'') g)
            else
              (case cat seedType of
                 None \<Rightarrow> (False, g)
               | Some plantData \<Rightarrow>
                   let pl = \<lparr>ptype = seedType, name = pd_name plantData, era = pd_era plantData,
                             growTime = pd_growTime plantData, maxStages = pd_stages plantData,
                             harvestYield = (case pd_harvestYield plantData of
                                               None \<Rightarrow> default_yield | Some y \<Rightarrow> y)\<rparr>;
                       updates = \<lparr>u_plant = Some (Some pl), u_state = Some Planted,
                                  u_plantedAt = Some (Some now), u_lastWatered = Some (Some now),
                                  u_growthStage = Some 0,
                                  u_maxGrowthStage = Some (pd_stages plantData),
                                  u_waterLevel = Some 100, u_nutrients = Some 80\<rparr>;
                       g1 = updatePlot plotId updates g;
                       g2 = g1\<lparr>activePlants := AList.update plotId
                              \<lparr>ap_plant = pl, ap_plantedAt = Some now, ap_lastWatered = Some now,
                               ap_growthStage = 0, ap_waterLevel = 100, ap_nutrients = 80\<rparr>
                              (activePlants g1)\<rparr>;
                       g3 = g2\<lparr>inv_seeds := AList.update seedType (seedCount - 1) (inv_seeds g2)\<rparr>
                   in (True, emit (PlantPlanted plotId pl now) g3)))"

definition waterPlant :: "int \<Rightarrow> rat \<Rightarrow> game \<Rightarrow> bool \<times> game" where
  "waterPlant plotId now g =
     (case getPlot g plotId of
        None \<Rightarrow> (False, g)
      | Some p \<Rightarrow>
          if plant p = None \<or> state p = Empty then (False, g)
          else
            let newWaterLevel = min 100 (waterLevel p + 30);
                updates = no_updates\<lparr>u_waterLevel := Some newWaterLevel,
                                        u_lastWatered := Some (Some now)\<rparr>;
                g1 = updatePlot plotId updates g;
                g2 = (case map_of (activePlants g1) plotId of
                        None \<Rightarrow> g1
                      | Some ap \<Rightarrow> g1\<lparr>activePlants := AList.update plotId
                            (ap\<lparr>ap_waterLevel := newWaterLevel, ap_lastWatered := Some now\<rparr>)
                            (activePlants g1)\<rparr>)
            in (True, emit (PlantWatered plotId newWaterLevel now) g2))"

text \<open>
  The harvest rewards. \<open>r1\<close> and \<open>r2\<close> are the two draws of \<open>Math.random()\<close>. The
  \<open>seeds\<close> component is the sum of two numbers, hence a number.
\<close>

record rewards =
  rw_seeds :: jsval
  rw_resources :: "(string \<times> rat) list"

definition calculateHarvestRewards :: "plant \<Rightarrow> rat \<Rightarrow> rat \<Rightarrow> rewards" where
  "calculateHarvestRewards pl r1 r2 =
     (let baseYield = harvestYield pl;
          seedBonus = of_int \<lfloor>r1 * 2\<rfloor>;
          resourceBonus = r2 * (1 / 2) + 3 / 4
      in \<lparr>rw_seeds = JNumber (seeds baseYield + seedBonus),
          rw_resources = map (\<lambda>(resource, amount). (resource, of_int \<lfloor>amount * resourceBonus\<rfloor>))
                           (resources baseYield)\<rparr>)"

text \<open>\<open>v || {}\<close>: the number 0 is falsy, an object never is.\<close>

definition or_empty_object :: "jsval \<Rightarrow> jsval" where
  "or_empty_object v = (case v of JNumber n \<Rightarrow> if n = 0 then JObject [] else JNumber n
                                 | JObject kvs \<Rightarrow> JObject kvs)"

text \<open>\<open>Object.entries\<close>: a number has no own enumerable property.\<close>

definition object_entries :: "jsval \<Rightarrow> (string \<times> rat) list" where
  "object_entries v = (case v of JNumber n \<Rightarrow> [] | JObject kvs \<Rightarrow> kvs)"

text \<open>The body of the two loops of \<open>applyHarvestRewards\<close>: read with default 0, add, write.\<close>

definition add_to :: "(string \<times> rat) \<Rightarrow> (string \<times> rat) list \<Rightarrow> (string \<times> rat) list" where
  "add_to e m = AList.update (fst e) (inv_get m (fst e) + snd e) m"

definition applyHarvestRewards :: "rewards \<Rightarrow> game \<Rightarrow> game" where
  "applyHarvestRewards rw g =
     (let g1 = g\<lparr>inv_seeds := fold add_to (object_entries (or_empty_object (rw_seeds rw)))
                                 (inv_seeds g)\<rparr>
      in g1\<lparr>inv_resources := fold add_to (rw_resources rw) (inv_resources g1)\<rparr>)"

definition harvestPlant :: "int \<Rightarrow> rat \<Rightarrow> rat \<Rightarrow> rat \<Rightarrow> game \<Rightarrow> bool \<times> game" where
  "harvestPlant plotId r1 r2 now g =
     (case getPlot g plotId of
        None \<Rightarrow> (False, emit (PlantError plotId ''Planta no lista'') g)
      | Some p \<Rightarrow>
          (case plant p of
             None \<Rightarrow> (False, emit (PlantError plotId ''Planta no lista'') g)
           | Some pl \<Rightarrow>
               if state p \<noteq> Ready then (False, emit (PlantError plotId ''Planta no lista'') g)
               else
                 let rw = calculateHarvestRewards pl r1 r2;
                     g1 = applyHarvestRewards rw g;
                     updates = \<lparr>u_plant = Some None, u_state = Some Empty,
                                u_plantedAt = Some None, u_lastWatered = Some None,
                                u_growthStage = Some 0, u_maxGrowthStage = Some 0,
                                u_waterLevel = Some 50, u_nutrients = Some 50\<rparr>;
                     g2 = updatePlot plotId updates g1;
                     g3 = g2\<lparr>activePlants := AList.delete plotId (activePlants g2)\<rparr>;
                     g4 = emit (PlantHarvested plotId pl (rw_seeds rw) (rw_resources rw) now) g3
                 in (True, emit (NotificationShow (''Cosechaste '' @ name pl)) g4)))"

text \<open>
  One iteration of the loop of \<open>updatePlants\<close>. The local variables \<open>updates\<close>,
  \<open>plant\<close> (the entry of \<open>activePlants\<close>, mutated in place) and \<open>needsUpdate\<close> are
  threaded through the three parts of the body.
\<close>

type_synonym iter_locals = "plot_updates \<times> active_plant \<times> bool"

definition decay_water :: "game \<Rightarrow> rat \<Rightarrow> plot \<Rightarrow> iter_locals \<Rightarrow> iter_locals" where
  "decay_water g now p loc =
     (case loc of (u, ap, needsUpdate) \<Rightarrow>
        if enableWatering g \<and> waterLevel p > 0 then
          let timeSinceWatered = now - or_now (lastWatered p) now;
              waterDecay = (timeSinceWatered / 1000) * waterDecayRate;
              newWaterLevel = max 0 (waterLevel p - waterDecay)
          in if \<bar>newWaterLevel - waterLevel p\<bar> > 1 / 10
             then (u\<lparr>u_waterLevel := Some newWaterLevel\<rparr>, ap\<lparr>ap_waterLevel := newWaterLevel\<rparr>, True)
             else (u, ap, needsUpdate)
        else (u, ap, needsUpdate))"

definition decay_nutrients :: "game \<Rightarrow> rat \<Rightarrow> plot \<Rightarrow> iter_locals \<Rightarrow> iter_locals" where
  "decay_nutrients g now p loc =
     (case loc of (u, ap, needsUpdate) \<Rightarrow>
        if enableNutrients g \<and> nutrients p > 0 then
          let timeSincePlanted = now - or_now (plantedAt p) now;
              nutrientDecay = (timeSincePlanted / 1000) * nutrientDecayRate;
              newNutrients = max 0 (nutrients p - nutrientDecay)
          in if \<bar>newNutrients - nutrients p\<bar> > 1 / 10
             then (u\<lparr>u_nutrients := Some newNutrients\<rparr>, ap\<lparr>ap_nutrients := newNutrients\<rparr>, True)
             else (u, ap, needsUpdate)
        else (u, ap, needsUpdate))"

text \<open>
  The growth part of the body, with the events it emits. \<open>None\<close> is the TypeError of
  \<open>calculateGrowth\<close>, which leaves the loop.
\<close>

definition grow :: "catalog \<Rightarrow> game \<Rightarrow> rat \<Rightarrow> int \<Rightarrow> plot \<Rightarrow> iter_locals
    \<Rightarrow> (iter_locals \<times> plant_event list) option" where
  "grow cat g now plotId p loc =
     (case loc of (u, ap, needsUpdate) \<Rightarrow>
        if state p = Planted \<or> state p = Growing then
          (case calculateGrowth cat (growthMultiplier g) p (ap_plant ap) now of
             None \<Rightarrow> None
           | Some growthResult \<Rightarrow>
               let (u1, ap1, n1, ev1) =
                     (if stageChanged growthResult
                      then (u\<lparr>u_growthStage := Some (newStage growthResult)\<rparr>,
                            ap\<lparr>ap_growthStage := newStage growthResult\<rparr>, True,
                            [PlantGrowth plotId (newStage growthResult) now])
                      else (u, ap, needsUpdate, []))
               in if isReady growthResult \<and> state p \<noteq> Ready
                  then Some ((u1\<lparr>u_state := Some Ready\<rparr>, ap1, True), ev1 @ [PlantReady plotId now])
                  else Some ((u1, ap1, n1), ev1))
        else Some ((u, ap, needsUpdate), []))"

text \<open>
  The result of a loop iteration, of \<open>updatePlants\<close> and of \<open>update\<close>: the flag is
  \<open>True\<close> when the TypeError was thrown, and the state is the one reached by then.
\<close>

definition update_entry :: "catalog \<Rightarrow> rat \<Rightarrow> int \<Rightarrow> game \<Rightarrow> bool \<times> game" where
  "update_entry cat now plotId g =
     (case map_of (activePlants g) plotId of
        None \<Rightarrow> (False, g)
      | Some ap0 \<Rightarrow>
          (case getPlot g plotId of
             None \<Rightarrow> (False, g)
           | Some p \<Rightarrow>
               let loc1 = decay_water g now p (no_updates, ap0, False);
                   loc2 = decay_nutrients g now p loc1
               in (case grow cat g now plotId p loc2 of
                     None \<Rightarrow>
                       (True, g\<lparr>activePlants :=
                                  AList.update plotId (fst (snd loc2)) (activePlants g)\<rparr>)
                   | Some ((u, ap, needsUpdate), evs) \<Rightarrow>
                       let g1 = g\<lparr>activePlants := AList.update plotId ap (activePlants g),
                                  events := events g @ evs\<rparr>
                       in (False, if needsUpdate then updatePlot plotId u g1 else g1))))"

fun update_loop :: "catalog \<Rightarrow> rat \<Rightarrow> int list \<Rightarrow> game \<Rightarrow> bool \<times> game" where
  "update_loop cat now [] g = (False, g)"
| "update_loop cat now (k # ks) g =
     (case update_entry cat now k g of
        (True, g') \<Rightarrow> (True, g')
      | (False, g') \<Rightarrow> update_loop cat now ks g')"

definition updatePlants :: "catalog \<Rightarrow> rat \<Rightarrow> game \<Rightarrow> bool \<times> game" where
  "updatePlants cat now g = update_loop cat now (map fst (activePlants g)) g"

text \<open>The periodic tick \<open>update(deltaTime)\<close>; a throw skips the reset of the timer.\<close>

definition update :: "catalog \<Rightarrow> rat \<Rightarrow> rat \<Rightarrow> game \<Rightarrow> bool \<times> game" where
  "update cat deltaTime now g =
     (let g1 = g\<lparr>updateTimer := updateTimer g + deltaTime\<rparr>
      in if updateTimer g1 \<ge> updateInterval
         then (case updatePlants cat now g1 of
                 (True, g2) \<Rightarrow> (True, g2)
               | (False, g2) \<Rightarrow> (False, g2\<lparr>updateTimer := 0\<rparr>))
         else (False, g1))"

text \<open>
  \<open>Math.min(100, (elapsed / growTime) * 100)\<close>. At grow time 0 the quotient is
  \<open>Infinity\<close>, \<open>-Infinity\<close> or \<open>NaN\<close> by the sign of \<open>elapsed\<close>, and the minimum
  with 100 is 100, \<open>-Infinity\<close> or \<open>NaN\<close>.
\<close>

definition reported_progress :: "rat \<Rightarrow> rat \<Rightarrow> js_number" where
  "reported_progress elapsed baseGrowTime =
     (if baseGrowTime \<noteq> 0 then Finite (min 100 ((elapsed / baseGrowTime) * 100))
      else if elapsed > 0 then Finite 100
      else if elapsed < 0 then NegInfinity
      else NotANumber)"

text \<open>
  \<open>accelerateGrowth\<close>: the result is \<open>None\<close> where the source returns \<open>null\<close>, and
  the reported progress otherwise.
\<close>

definition accelerateGrowth :: "catalog \<Rightarrow> int \<Rightarrow> rat \<Rightarrow> rat \<Rightarrow> game \<Rightarrow> js_number option \<times> game" where
  "accelerateGrowth cat plotId duration now g =
     (case getPlot g plotId of
        None \<Rightarrow> (None, g)
      | Some p \<Rightarrow>
          (case plant p of
             None \<Rightarrow> (None, g)
           | Some pl \<Rightarrow>
               (case cat (ptype pl) of
                  None \<Rightarrow> (None, g)
                | Some plantData \<Rightarrow>
                    let newPlantedAt = or_now (plantedAt p) now - duration;
                        g1 = updatePlot plotId (no_updates\<lparr>u_plantedAt := Some (Some newPlantedAt)\<rparr>) g;
                        g2 = (case map_of (activePlants g1) plotId of
                                None \<Rightarrow> g1
                              | Some ap \<Rightarrow> g1\<lparr>activePlants := AList.update plotId
                                    (ap\<lparr>ap_plantedAt := Some newPlantedAt\<rparr>) (activePlants g1)\<rparr>);
                        elapsed = now - newPlantedAt;
                        progress = reported_progress elapsed (pd_growTime plantData)
                    in (Some progress, emit (PlantAccelerated plotId progress duration now) g2))))"

text \<open>The mutating operations of the lifecycle engine, and runs of them.\<close>

datatype plant_op =
    PlantSeed int string rat
  | WaterPlant int rat
  | HarvestPlant int rat rat rat
  | AccelerateGrowth int rat rat
  | Update rat rat

fun exec_op :: "catalog \<Rightarrow> plant_op \<Rightarrow> game \<Rightarrow> game" where
  "exec_op cat (PlantSeed plotId seedType now) g = snd (plantSeed cat plotId seedType now g)"
| "exec_op cat (WaterPlant plotId now) g = snd (waterPlant plotId now g)"
| "exec_op cat (HarvestPlant plotId r1 r2 now) g = snd (harvestPlant plotId r1 r2 now g)"
| "exec_op cat (AccelerateGrowth plotId duration now) g = snd (accelerateGrowth cat plotId duration now g)"
| "exec_op cat (Update deltaTime now) g = snd (update cat deltaTime now g)"

definition run_ops :: "catalog \<Rightarrow> plant_op list \<Rightarrow> game \<Rightarrow> game" where
  "run_ops cat ops g = fold (exec_op cat) ops g"

text \<open>The occupancy invariant of a plot.\<close>

definition occupancy_ok :: "plot \<Rightarrow> bool" where
  "occupancy_ok p = ((plant p \<noteq> None) = (state p = Planted \<or> state p = Growing \<or> state p = Ready))"

text \<open>Repeated ticks, each with its \<open>deltaTime\<close> and the clock at the call.\<close>

definition ticks :: "catalog \<Rightarrow> (rat \<times> rat) list \<Rightarrow> game \<Rightarrow> game" where
  "ticks cat ts g = fold (\<lambda>(deltaTime, now) g'. snd (update cat deltaTime now g')) ts g"

subsection \<open>Scenario 1 of the specification\<close>

definition moss_yield :: harvest_yield where
  "moss_yield = \<lparr>seeds = 1, resources = [(''temporal-pulses'', 5), (''fossils'', 2)]\<rparr>"

definition moss_data :: plant_data where
  "moss_data = \<lparr>pd_name = ''Musgo Prehistorico'', pd_era = ''prehistoric'',
     pd_growTime = 30000, pd_stages = 3, pd_harvestYield = Some moss_yield\<rparr>"

text \<open>The catalogue \<open>window.plantData\<close>, cut down to its first entry.\<close>

definition moss_catalog :: catalog where
  "moss_catalog k = (if k = ''prehistoric-moss'' then Some moss_data else None)"

definition moss_plant :: plant where
  "moss_plant = \<lparr>ptype = ''prehistoric-moss'', name = ''Musgo Prehistorico'',
     era = ''prehistoric'', growTime = 30000, maxStages = 3, harvestYield = moss_yield\<rparr>"

text \<open>A plot as \<open>plantSeed\<close> leaves it at time \<open>t\<close>.\<close>

definition fresh_plot :: "int \<Rightarrow> rat \<Rightarrow> plot" where
  "fresh_plot i t = \<lparr>plot_id = i, plant = Some moss_plant, state = Planted,
     plantedAt = Some t, lastWatered = Some t, growthStage = 0, maxGrowthStage = 3,
     waterLevel = 100, nutrients = 80\<rparr>"

text \<open>A plot as \<open>initializeDefaultState\<close> of the state store creates it.\<close>

definition empty_plot :: "int \<Rightarrow> plot" where
  "empty_plot i = \<lparr>plot_id = i, plant = None, state = Empty, plantedAt = None,
     lastWatered = None, growthStage = 0, maxGrowthStage = 0, waterLevel = 50, nutrients = 50\<rparr>"

text \<open>The 48 plots of the default state.\<close>

definition initial_plots :: "plot list" where
  "initial_plots = map (\<lambda>i. empty_plot (int i)) [0..<48]"

text \<open>
  A small farm: plot 0 was planted with moss at time 1000, plot 1 is empty; five moss
  seeds and 100 temporal pulses in the inventory; growth multiplier 1.
\<close>

definition demo_game :: game where
  "demo_game = \<lparr>plots = [fresh_plot 0 1000, empty_plot 1],
     inv_seeds = [(''prehistoric-moss'', 5)],
     inv_resources = [(''temporal-pulses'', 100)],
     activePlants = [(0, \<lparr>ap_plant = moss_plant, ap_plantedAt = Some 1000,
                          ap_lastWatered = Some 1000, ap_growthStage = 0,
                          ap_waterLevel = 100, ap_nutrients = 80\<rparr>)],
     growthMultiplier = 1, updateTimer = 0, enableWatering = True, enableNutrients = True,
     events = []\<rparr>"

text \<open>
  What ticks may do to a plot: the id and the plant stay, the state stays or goes from
  planted or growing to ready, and the growth stage does not go down.
\<close>

definition tick_step :: "plot \<Rightarrow> plot \<Rightarrow> bool" where
  "tick_step p q = (plot_id q = plot_id p \<and> plant q = plant p
      \<and> (state q = state p \<or> (state q = Ready \<and> (state p = Planted \<or> state p = Growing)))
      \<and> growthStage p \<le> growthStage q)"

section \<open>TimeTravelSystem\<close>

text \<open>The tagged \<open>unlockRequirement\<close> of an era; \<open>OtherReq\<close> is a type the switch of
  \<open>checkEraUnlocks\<close> has no case for.\<close>

datatype requirement =
    HarvestReq string rat
  | MinigameReq string
  | ResourceReq string rat
  | OtherReq string

record era_info =
  era_name :: string
  music :: string
  ambient :: string
  unlocked :: bool
  unlockRequirement :: "requirement option"
  effects_growthMultiplier :: rat

datatype travel_event =
    TravelLocked string "requirement option"
  | TravelInsufficient rat rat
  | TravelStart string string rat
  | TravelSuccess "string option" string rat
  | TravelError
  | EraUnlocked string rat
  | TravelNotification string

text \<open>
  The fields of the system, the paths of the state store it reads and writes
  (\<open>st_...\<close>), the growth multiplier of the plant system it sets (\<open>None\<close> when no
  plant system is registered) and the events it emits. \<open>eras\<close> is the \<open>Map\<close> of eras
  in insertion order.
\<close>

record tts =
  currentEra :: string
  previousEra :: "string option"
  isTraveling :: bool
  travelCooldown :: rat
  eras :: "(string \<times> era_info) list"
  enableTravelEffects :: bool
  enableCooldown :: bool
  enableCost :: bool
  st_resources :: "(string \<times> rat) list"
  st_seeds :: "(string \<times> rat) list"
  st_currentEra :: string
  st_previousEra :: "string option"
  st_unlockedEras :: "string list"
  st_harvestStats :: "(string \<times> rat) list"
  ps_growthMultiplier :: "rat option"
  travel_events :: "travel_event list"

definition minTravelInterval :: rat where "minTravelInterval = 5000"
definition temporalPulseCost :: rat where "temporalPulseCost = 10"

definition emit_travel :: "travel_event \<Rightarrow> tts \<Rightarrow> tts" where
  "emit_travel e s = s\<lparr>travel_events := travel_events s @ [e]\<rparr>"

text \<open>
  The calls into the renderer and the audio manager made inside the \<open>try\<close> block of
  \<open>travelTo\<close> are outside the system and may throw. A \<open>travel_fault\<close> says which of
  them does: the effect sequence (\<open>playTravelEffects\<close>), the change of music and
  ambient, or the change of theme (\<open>applyEraTheme\<close>).
\<close>

datatype travel_fault = NoFault | EffectsThrow | AudioThrows | ThemeThrows

definition applyEraEffects :: "era_info \<Rightarrow> tts \<Rightarrow> tts" where
  "applyEraEffects e s =
     (case ps_growthMultiplier s of
        None \<Rightarrow> s
      | Some m \<Rightarrow> if effects_growthMultiplier e \<noteq> 0
                  then s\<lparr>ps_growthMultiplier := Some (effects_growthMultiplier e)\<rparr> else s)"

text \<open>The \<open>catch\<close> and \<open>finally\<close> blocks of \<open>travelTo\<close>.\<close>

definition travel_caught :: "tts \<Rightarrow> bool \<times> tts" where
  "travel_caught s = (False, (emit_travel TravelError s)\<lparr>isTraveling := False\<rparr>)"

text \<open>
  \<open>travelTo\<close>, run to its end: the waits of the effect sequence are not modelled, and
  no other operation runs in between.
\<close>

definition travelTo :: "string \<Rightarrow> travel_fault \<Rightarrow> rat \<Rightarrow> tts \<Rightarrow> bool \<times> tts" where
  "travelTo eraId fault now s =
     (if isTraveling s then (False, s)
      else if currentEra s = eraId then (False, s)
      else
        (case map_of (eras s) eraId of
           None \<Rightarrow> (False, s)
         | Some targetEra \<Rightarrow>
             if \<not> unlocked targetEra
             then (False, emit_travel (TravelLocked eraId (unlockRequirement targetEra)) s)
             else if enableCooldown s \<and> travelCooldown s > 0 then (False, s)
             else if enableCost s \<and> inv_get (st_resources s) ''temporal-pulses'' < temporalPulseCost
             then (False, emit_travel (TravelInsufficient temporalPulseCost
                            (inv_get (st_resources s) ''temporal-pulses'')) s)
             else
               let s1 = s\<lparr>isTraveling := True\<rparr>;
                   s2 = (if enableCost s1
                         then s1\<lparr>st_resources := AList.update ''temporal-pulses''
                                  (inv_get (st_resources s1) ''temporal-pulses'' - temporalPulseCost)
                                  (st_resources s1)\<rparr>
                         else s1);
                   s3 = emit_travel (TravelStart (currentEra s2) eraId now) s2
               in if enableTravelEffects s3 \<and> fault = EffectsThrow then travel_caught s3
                  else
                    let s4 = s3\<lparr>previousEra := Some (currentEra s3), currentEra := eraId\<rparr>;
                        s5 = s4\<lparr>st_currentEra := eraId, st_previousEra := previousEra s4\<rparr>;
                        s6 = applyEraEffects targetEra s5
                    in if fault = AudioThrows \<or> fault = ThemeThrows then travel_caught s6
                       else
                         let s7 = emit_travel (TravelSuccess (previousEra s6) eraId now) s6
                         in (True, s7\<lparr>travelCooldown := minTravelInterval,
                                       isTraveling := False\<rparr>)))"

definition unlockEra :: "string \<Rightarrow> rat \<Rightarrow> tts \<Rightarrow> tts" where
  "unlockEra eraId now s =
     (case map_of (eras s) eraId of
        None \<Rightarrow> s
      | Some e \<Rightarrow>
          if unlocked e then s
          else
            let s1 = s\<lparr>eras := AList.update eraId (e\<lparr>unlocked := True\<rparr>) (eras s)\<rparr>;
                s2 = (if eraId \<notin> set (st_unlockedEras s1)
                      then s1\<lparr>st_unlockedEras := st_unlockedEras s1 @ [eraId]\<rparr> else s1);
                s3 = emit_travel (EraUnlocked eraId now) s2
            in emit_travel (TravelNotification (''Era desbloqueada: '' @ era_name e)) s3)"

definition getHarvestCount :: "tts \<Rightarrow> string \<Rightarrow> rat" where
  "getHarvestCount s plantType = inv_get (st_harvestStats s) plantType"

text \<open>
  The body of the loop of \<open>checkEraUnlocks\<close> for one era; \<open>harvested\<close> is
  \<open>harvestData.plant.type\<close>.
\<close>

definition check_era :: "string \<Rightarrow> rat \<Rightarrow> string \<Rightarrow> tts \<Rightarrow> tts" where
  "check_era harvested now eraId s =
     (case map_of (eras s) eraId of
        None \<Rightarrow> s
      | Some e \<Rightarrow>
          if unlocked e then s
          else
            (case unlockRequirement e of
               None \<Rightarrow> s
             | Some req \<Rightarrow>
                 let shouldUnlock =
                       (case req of
                          HarvestReq plantType count \<Rightarrow>
                            harvested = plantType \<and> getHarvestCount s plantType \<ge> count
                        | MinigameReq m \<Rightarrow> False
                        | ResourceReq resource amount \<Rightarrow>
                            inv_get (st_resources s) resource \<ge> amount
                        | OtherReq t \<Rightarrow> False)
                 in if shouldUnlock then unlockEra eraId now s else s))"

definition checkEraUnlocks :: "string \<Rightarrow> rat \<Rightarrow> tts \<Rightarrow> tts" where
  "checkEraUnlocks harvested now s = fold (check_era harvested now) (map fst (eras s)) s"

text \<open>The rewards of a minigame: \<open>None\<close> when the event carries none.\<close>

record minigame_rewards =
  mr_resources :: "(string \<times> rat) list"
  mr_seeds :: "(string \<times> rat) list"

definition applyMinigameRewards :: "minigame_rewards option \<Rightarrow> tts \<Rightarrow> tts" where
  "applyMinigameRewards rw s =
     (case rw of
        None \<Rightarrow> s
      | Some r \<Rightarrow>
          let s1 = s\<lparr>st_resources := fold add_to (mr_resources r) (st_resources s)\<rparr>
          in s1\<lparr>st_seeds := fold add_to (mr_seeds r) (st_seeds s1)\<rparr>)"

text \<open>The first era, in the order of the map, that this minigame unlocks.\<close>

definition minigame_era :: "string \<Rightarrow> (string \<times> era_info) list \<Rightarrow> string option" where
  "minigame_era minigame es =
     map_option fst (find (\<lambda>(k, e). unlockRequirement e = Some (MinigameReq minigame)) es)"

definition onMinigameCompleted :: "string \<Rightarrow> bool \<Rightarrow> minigame_rewards option \<Rightarrow> rat \<Rightarrow> tts \<Rightarrow> tts" where
  "onMinigameCompleted minigame success rw now s =
     (if success
      then applyMinigameRewards rw
             (case minigame_era minigame (eras s) of
                None \<Rightarrow> s
              | Some eraId \<Rightarrow> unlockEra eraId now s)
      else s)"

definition travel_update :: "rat \<Rightarrow> tts \<Rightarrow> tts" where
  "travel_update deltaTime s =
     (if travelCooldown s > 0
      then s\<lparr>travelCooldown := max 0 (travelCooldown s - deltaTime)\<rparr> else s)"

text \<open>\<open>configure\<close>: \<open>Object.assign\<close> of the flags the argument mentions.\<close>

definition configure :: "bool option \<Rightarrow> bool option \<Rightarrow> bool option \<Rightarrow> tts \<Rightarrow> tts" where
  "configure effects cooldown cost s =
     s\<lparr>enableTravelEffects := (case effects of None \<Rightarrow> enableTravelEffects s | Some b \<Rightarrow> b),
       enableCooldown := (case cooldown of None \<Rightarrow> enableCooldown s | Some b \<Rightarrow> b),
       enableCost := (case cost of None \<Rightarrow> enableCost s | Some b \<Rightarrow> b)\<rparr>"

text \<open>
  The operations of the running system. \<open>destroy\<close>, which empties the map of eras and
  ends the life of the system, is not among them.
\<close>

datatype travel_op =
    TravelTo string travel_fault rat
  | CheckEraUnlocks string rat
  | UnlockEra string rat
  | MinigameCompleted string bool "minigame_rewards option" rat
  | TravelUpdate rat
  | Configure "bool option" "bool option" "bool option"

fun exec_travel :: "travel_op \<Rightarrow> tts \<Rightarrow> tts" where
  "exec_travel (TravelTo eraId fault now) s = snd (travelTo eraId fault now s)"
| "exec_travel (CheckEraUnlocks harvested now) s = checkEraUnlocks harvested now s"
| "exec_travel (UnlockEra eraId now) s = unlockEra eraId now s"
| "exec_travel (MinigameCompleted minigame success rw now) s =
     onMinigameCompleted minigame success rw now s"
| "exec_travel (TravelUpdate deltaTime) s = travel_update deltaTime s"
| "exec_travel (Configure effects cooldown cost) s = configure effects cooldown cost s"

definition run_travel :: "travel_op list \<Rightarrow> tts \<Rightarrow> tts" where
  "run_travel ops s = fold exec_travel ops s"

text \<open>Whether the era with this id is in the map and unlocked.\<close>

definition era_unlocked :: "tts \<Rightarrow> string \<Rightarrow> bool" where
  "era_unlocked s eraId = (case map_of (eras s) eraId of None \<Rightarrow> False | Some e \<Rightarrow> unlocked e)"

text \<open>The eras of \<open>initializeEras\<close> and the system after \<open>init\<close> on the default store.\<close>

definition initial_eras :: "(string \<times> era_info) list" where
  "initial_eras =
     [(''prehistoric'', \<lparr>era_name = ''Era Primigenia'', music = ''music-prehistoric'',
         ambient = ''ambient-jungle'', unlocked = True, unlockRequirement = None,
         effects_growthMultiplier = 4 / 5\<rparr>),
      (''egyptian'', \<lparr>era_name = ''Antiguo Egipto'', music = ''music-egyptian'',
         ambient = ''ambient-desert'', unlocked = False,
         unlockRequirement = Some (HarvestReq ''prehistoric-moss'' 10),
         effects_growthMultiplier = 1\<rparr>),
      (''future'', \<lparr>era_name = ''3025'', music = ''music-future'',
         ambient = ''ambient-cyber'', unlocked = False,
         unlockRequirement = Some (HarvestReq ''lotus-egyptian'' 15),
         effects_growthMultiplier = 3 / 2\<rparr>)]"

definition initial_tts :: tts where
  "initial_tts = \<lparr>currentEra = ''prehistoric'', previousEra = None, isTraveling = False,
     travelCooldown = 0, eras = initial_eras, enableTravelEffects = True,
     enableCooldown = True, enableCost = True,
     st_resources = [(''temporal-pulses'', 100), (''seeds'', 10)],
     st_seeds = [(''prehistoric-moss'', 5), (''lotus-egyptian'', 0), (''crystal-future'', 0)],
     st_currentEra = ''prehistoric'', st_previousEra = None,
     st_unlockedEras = [''prehistoric''], st_harvestStats = [],
     ps_growthMultiplier = Some 1, travel_events = []\<rparr>"

text \<open>The same system once ten moss harvests are recorded and Egypt is unlocked.\<close>

definition egypt_open :: tts where
  "egypt_open = unlockEra ''egyptian'' 5000
     (initial_tts\<lparr>st_harvestStats := [(''prehistoric-moss'', 10)]\<rparr>)"

text \<open>The precondition checks of \<open>travelTo\<close>: a travel is refused when one of them fails.\<close>

definition travel_refused :: "string \<Rightarrow> tts \<Rightarrow> bool" where
  "travel_refused eraId s =
     (isTraveling s \<or> currentEra s = eraId \<or>
      (case map_of (eras s) eraId of
         None \<Rightarrow> True
       | Some e \<Rightarrow> \<not> unlocked e \<or> (enableCooldown s \<and> travelCooldown s > 0) \<or>
           (enableCost s \<and> inv_get (st_resources s) ''temporal-pulses'' < temporalPulseCost)))"

text \<open>The \<open>timetravel:era-unlocked\<close> events for one era, among the emitted events.\<close>

fun is_unlock_of :: "string \<Rightarrow> travel_event \<Rightarrow> bool" where
  "is_unlock_of eraId (EraUnlocked k t) = (k = eraId)"
| "is_unlock_of eraId e = False"

definition unlock_events :: "string \<Rightarrow> tts \<Rightarrow> travel_event list" where
  "unlock_events eraId s = filter (is_unlock_of eraId) (travel_events s)"

text \<open>
  An era is unlocked, with given unlock events and a given number of occurrences in
  \<open>player.unlockedEras\<close>.
\<close>

definition unlock_frozen :: "string \<Rightarrow> travel_event list \<Rightarrow> nat \<Rightarrow> tts \<Rightarrow> bool" where
  "unlock_frozen eraId evs n s =
     (era_unlocked s eraId \<and> unlock_events eraId s = evs
      \<and> count_list (st_unlockedEras s) eraId = n)"

section \<open>EventBus\<close>

text \<open>
  A listener as \<open>on\<close> builds it. The id is the value of \<open>listenerIdCounter\<close> it was
  made from, the callback is known by a name. The bus keeps the \<open>events\<close> map (topic
  to listeners), the \<open>listenerMap\<close> (id to topic) and, for the model, the list of
  callback invocations (topic, listener id) in the order they happen. What a callback
  does is outside the bus, but for whether it throws: \<open>throws\<close> says so, by listener id.
\<close>

record listener =
  l_id :: nat
  l_callback :: string
  l_once :: bool
  l_priority :: int

record listener_options =
  opt_priority :: int
  opt_once :: bool

record event_bus =
  bus_events :: "(string \<times> listener list) list"
  listenerIdCounter :: nat
  listenerMap :: "(nat \<times> string) list"
  invoked :: "(string \<times> nat) list"

definition new_bus :: event_bus where
  "new_bus = \<lparr>bus_events = [], listenerIdCounter = 0, listenerMap = [], invoked = []\<rparr>"

definition default_options :: listener_options where
  "default_options = \<lparr>opt_priority = 0, opt_once = False\<rparr>"

text \<open>
  \<open>on\<close>: the listener literal sets \<open>once: false\<close> and reads only the context, the
  priority, the error handler and the metadata from \<open>options\<close>. The sort is stable,
  by descending priority.
\<close>

definition on :: "string \<Rightarrow> string \<Rightarrow> listener_options \<Rightarrow> event_bus \<Rightarrow> nat \<times> event_bus" where
  "on event callback options b =
     (let listeners = (case map_of (bus_events b) event of None \<Rightarrow> [] | Some ls \<Rightarrow> ls);
          listenerId = listenerIdCounter b + 1;
          l = \<lparr>l_id = listenerId, l_callback = callback, l_once = False,
               l_priority = opt_priority options\<rparr>;
          sorted_listeners = sort_key (\<lambda>x. - l_priority x) (listeners @ [l])
      in (listenerId,
          b\<lparr>bus_events := AList.update event sorted_listeners (bus_events b),
            listenerIdCounter := listenerId,
            listenerMap := AList.update listenerId event (listenerMap b)\<rparr>))"

text \<open>\<open>once\<close>: \<open>on\<close> with \<open>{ ...options, once: true }\<close>.\<close>

definition once :: "string \<Rightarrow> string \<Rightarrow> listener_options \<Rightarrow> event_bus \<Rightarrow> nat \<times> event_bus" where
  "once event callback options b = on event callback (options\<lparr>opt_once := True\<rparr>) b"

definition removeListener :: "string \<Rightarrow> nat \<Rightarrow> event_bus \<Rightarrow> bool \<times> event_bus" where
  "removeListener event listenerId b =
     (case map_of (bus_events b) event of
        None \<Rightarrow> (False, b)
      | Some listeners \<Rightarrow>
          (case map_of (listenerMap b) listenerId of
             None \<Rightarrow> (False, b)
           | Some ev \<Rightarrow>
               if ev \<noteq> event then (False, b)
               else if \<not> (\<exists>l \<in> set listeners. l_id l = listenerId) then (False, b)
               else
                 let rest = takeWhile (\<lambda>l. l_id l \<noteq> listenerId) listeners
                            @ tl (dropWhile (\<lambda>l. l_id l \<noteq> listenerId) listeners);
                     b1 = b\<lparr>bus_events := AList.update event rest (bus_events b),
                             listenerMap := AList.delete listenerId (listenerMap b)\<rparr>
                 in (True, if rest = []
                           then b1\<lparr>bus_events := AList.delete event (bus_events b1)\<rparr>
                           else b1)))"

text \<open>The loop of \<open>emit\<close> over the copy of the listeners taken before the first call.\<close>

fun emit_loop :: "(nat \<Rightarrow> bool) \<Rightarrow> string \<Rightarrow> listener list \<Rightarrow> bool \<Rightarrow> event_bus
    \<Rightarrow> bool \<times> event_bus" where
  "emit_loop throws event [] handled b = (handled, b)"
| "emit_loop throws event (l # ls) handled b =
     (let b1 = (if l_once l then snd (removeListener event (l_id l) b) else b);
          b2 = b1\<lparr>invoked := invoked b1 @ [(event, l_id l)]\<rparr>
      in emit_loop throws event ls (if throws (l_id l) then handled else True) b2)"

definition emit_bus :: "(nat \<Rightarrow> bool) \<Rightarrow> string \<Rightarrow> event_bus \<Rightarrow> bool \<times> event_bus" where
  "emit_bus throws event b =
     (case map_of (bus_events b) event of
        None \<Rightarrow> (False, b)
      | Some listeners \<Rightarrow>
          if listeners = [] then (False, b) else emit_loop throws event listeners False b)"

text \<open>How often the listener with this id was invoked on this topic.\<close>

definition invocations :: "event_bus \<Rightarrow> string \<Rightarrow> nat \<Rightarrow> nat" where
  "invocations b event listenerId = count_list (invoked b) (event, listenerId)"

text \<open>
  A bus with an ordinary listener (id 1) and a listener registered through \<open>once\<close>
  (id 2) on the topic \<open>plant:ready\<close>, and the same bus after one and after two
  emissions of the topic in which no callback throws.
\<close>

definition once_bus :: event_bus where
  "once_bus = snd (once ''plant:ready'' ''cb-once'' default_options
                 (snd (on ''plant:ready'' ''cb-on'' default_options new_bus)))"

definition once_bus_1 :: event_bus where
  "once_bus_1 = snd (emit_bus (\<lambda>i. False) ''plant:ready'' once_bus)"

definition once_bus_2 :: event_bus where
  "once_bus_2 = snd (emit_bus (\<lambda>i. False) ''plant:ready'' once_bus_1)"

text \<open>A bus holding one listener whose \<open>once\<close> flag is set, as \<open>emit\<close> expects it.\<close>

definition flagged_bus :: event_bus where
  "flagged_bus = \<lparr>bus_events = [(''plant:ready'',
        [\<lparr>l_id = 1, l_callback = ''cb-once'', l_once = True, l_priority = 0\<rparr>])],
     listenerIdCounter = 1, listenerMap = [(1, ''plant:ready'')], invoked = []\<rparr>"

section \<open>StateManager\<close>

subsection \<open>Wildcard subscriptions\<close>

text \<open>\<open>path.split('.')\<close>: the empty string has one (empty) segment.\<close>

fun split_dots :: "string \<Rightarrow> string list" where
  "split_dots [] = [[]]"
| "split_dots (c # cs) =
     (if c = CHR ''.'' then [] # split_dots cs
      else (case split_dots cs of [] \<Rightarrow> [[c]] | seg # segs \<Rightarrow> (c # seg) # segs))"

text \<open>
  \<open>pathMatches\<close> replaces every \<open>*\<close> of the pattern by \<open>([^.]*)\<close> and every \<open>?\<close>
  by \<open>([^])\<close>, and hands the rest to \<open>RegExp\<close> as it is, between \<open>^\<close> and \<open>$\<close>. So
  a dot of the pattern is the regular expression's dot (any character but a line
  terminator) and every other character stands for itself, unless it is special in a
  regular expression; such patterns are outside the model (\<open>None\<close>). Characters are
  bytes here, so the line terminators are LF and CR.
\<close>

datatype ratom = Lit char | Dot | NonDots | AnyOne

definition regex_special :: "char \<Rightarrow> bool" where
  "regex_special c = (c \<in> set ''^$+()[]{}|'' \<or> c = CHR 0x5C)"

definition atom_of :: "char \<Rightarrow> ratom" where
  "atom_of c = (if c = CHR ''*'' then NonDots else if c = CHR ''?'' then AnyOne
                else if c = CHR ''.'' then Dot else Lit c)"

fun regex_of :: "string \<Rightarrow> ratom list option" where
  "regex_of [] = Some []"
| "regex_of (c # cs) =
     (if regex_special c then None
      else (case regex_of cs of None \<Rightarrow> None | Some r \<Rightarrow> Some (atom_of c # r)))"

definition line_terminator :: "char \<Rightarrow> bool" where
  "line_terminator c = (c = CHR 0x0A \<or> c = CHR 0x0D)"

text \<open>Whether the whole string matches the sequence of atoms.\<close>

fun rmatch :: "ratom list \<Rightarrow> string \<Rightarrow> bool" where
  "rmatch [] s = (s = [])"
| "rmatch (Lit c # r) [] = False"
| "rmatch (Lit c # r) (x # xs) = (x = c \<and> rmatch r xs)"
| "rmatch (Dot # r) [] = False"
| "rmatch (Dot # r) (x # xs) = (\<not> line_terminator x \<and> rmatch r xs)"
| "rmatch (AnyOne # r) [] = False"
| "rmatch (AnyOne # r) (x # xs) = rmatch r xs"
| "rmatch (NonDots # r) [] = rmatch r []"
| "rmatch (NonDots # r) (x # xs) =
     (rmatch r (x # xs) \<or> (x \<noteq> CHR ''.'' \<and> rmatch (NonDots # r) xs))"

definition pathMatches :: "string \<Rightarrow> string \<Rightarrow> bool option" where
  "pathMatches path pattern = map_option (\<lambda>r. rmatch r path) (regex_of pattern)"

text \<open>
  \<open>notifyChange\<close>, as the ids of the subscriptions it notifies, in order: those
  registered for the path itself, then those of every pattern with a \<open>*\<close> that matches.
  \<open>stateListeners\<close> maps a pattern to the ids of its subscriptions. A pattern
  outside the model of \<open>pathMatches\<close> counts as not matching here.
\<close>

definition notifyChange :: "(string \<times> nat list) list \<Rightarrow> string \<Rightarrow> nat list" where
  "notifyChange stateListeners path =
     (case map_of stateListeners path of None \<Rightarrow> [] | Some subs \<Rightarrow> subs)
     @ concat (map snd (filter (\<lambda>(listenerPath, subs).
          CHR ''*'' \<in> set listenerPath \<and> pathMatches path listenerPath = Some True)
          stateListeners))"

text \<open>
  The matching the specification describes, written from its words: pattern and path
  have the same number of segments, and each segment of the pattern is \<open>*\<close> or equals
  the segment of the path at its place.
\<close>

definition spec_pathMatches :: "string \<Rightarrow> string \<Rightarrow> bool" where
  "spec_pathMatches path pattern =
     list_all2 (\<lambda>p q. p = ''*'' \<or> p = q) (split_dots pattern) (split_dots path)"

subsection \<open>The state tree\<close>

text \<open>
  The values of the state: \<open>null\<close>, booleans, numbers, strings, arrays, and objects
  with their prototype and their own enumerable properties in order. \<open>JSON.parse\<close>
  and object literals give every object the prototype \<open>Object.prototype\<close>; an
  assignment to the key \<open>__proto__\<close> may replace it by \<open>null\<close> or by another value
  of the state. An array has the prototype \<open>Array.prototype\<close> and its elements.
\<close>

datatype 'v prototype = ObjectPrototype | NoPrototype | Prototype 'v

datatype jsv = VNull | VBool bool | VNum rat | VStr string | VArr "jsv list"
  | VObj "jsv prototype" "(string \<times> jsv) list"



text \<open>\<open>v instanceof Array\<close>: \<open>Array.prototype\<close> is on the prototype chain of \<open>v\<close>.\<close>

fun instanceof_Array :: "jsv \<Rightarrow> bool" where
  "instanceof_Array (VArr xs) = True"
| "instanceof_Array (VObj (Prototype p) kvs) = instanceof_Array p"
| "instanceof_Array v = False"

text \<open>
  Whether the lookup of \<open>key\<close> from \<open>v\<close> reaches \<open>Object.prototype\<close>: no object on
  the chain has an own property of that name, and the chain does not end in \<open>null\<close>.
  It is used for the keys \<open>hasOwnProperty\<close> and \<open>__proto__\<close>, which
  \<open>Array.prototype\<close> does not define.
\<close>

fun reaches_Object_prototype :: "string \<Rightarrow> jsv \<Rightarrow> bool" where
  "reaches_Object_prototype key (VArr xs) = True"
| "reaches_Object_prototype key (VObj ObjectPrototype kvs) = (map_of kvs key = None)"
| "reaches_Object_prototype key (VObj NoPrototype kvs) = False"
| "reaches_Object_prototype key (VObj (Prototype p) kvs) =
     (map_of kvs key = None \<and> reaches_Object_prototype key p)"
| "reaches_Object_prototype key v = False"

text \<open>
  Whether \<open>v.hasOwnProperty\<close> is the method of \<open>Object.prototype\<close>; an own property
  of that name on the chain would be data, not a function.
\<close>

definition inherits_hasOwnProperty :: "jsv \<Rightarrow> bool" where
  "inherits_hasOwnProperty v = reaches_Object_prototype ''hasOwnProperty'' v"

text \<open>Whether \<open>for (key in v)\<close> runs its body at all: own and inherited enumerable keys.\<close>

fun has_enumerable :: "jsv \<Rightarrow> bool" where
  "has_enumerable (VArr xs) = (xs \<noteq> [])"
| "has_enumerable (VObj (Prototype p) kvs) = (kvs \<noteq> [] \<or> has_enumerable p)"
| "has_enumerable (VObj pr kvs) = (kvs \<noteq> [])"
| "has_enumerable v = False"

text \<open>
  \<open>clonedObj[key] = value\<close> on the object under construction, given as its prototype
  and its own properties. The key \<open>__proto__\<close> reaches the setter of
  \<open>Object.prototype\<close>, as long as the object inherits it; the setter replaces the
  prototype when the value is an object or \<open>null\<close> and does nothing otherwise, and
  no own property is made. Every other assignment makes or overwrites an own property.
\<close>

definition assign_property :: "string \<Rightarrow> jsv \<Rightarrow> jsv prototype \<times> (string \<times> jsv) list
    \<Rightarrow> jsv prototype \<times> (string \<times> jsv) list" where
  "assign_property key v obj =
     (case obj of (pr, kvs) \<Rightarrow>
        if key = ''__proto__'' \<and> reaches_Object_prototype ''__proto__'' (VObj pr kvs) then
          (case v of
             VObj vp vkvs \<Rightarrow> (Prototype v, kvs)
           | VArr xs \<Rightarrow> (Prototype v, kvs)
           | VNull \<Rightarrow> (NoPrototype, kvs)
           | _ \<Rightarrow> (pr, kvs))
        else (pr, AList.update key v kvs))"

text \<open>
  \<open>deepClone\<close>. A primitive or \<open>null\<close> is returned as it is and an array is mapped.
  For an object, the loop \<open>for (key in obj)\<close> calls \<open>obj.hasOwnProperty(key)\<close> first,
  which throws a TypeError when that is not the inherited method, and then assigns the
  clone of each own property to the new object; inherited keys are skipped. An object
  that is an \<open>instanceof Array\<close> without being an array goes to \<open>obj.map\<close>, which is
  outside the model (\<open>Unmodelled\<close>). \<open>Date\<close> objects are not values of the state.
\<close>

datatype clone_error = TypeError | Unmodelled

fun deepClone :: "jsv \<Rightarrow> clone_error + jsv"
  and clone_items :: "jsv list \<Rightarrow> clone_error + jsv list"
  and clone_properties :: "(string \<times> jsv) list \<Rightarrow> jsv prototype \<times> (string \<times> jsv) list
    \<Rightarrow> clone_error + jsv prototype \<times> (string \<times> jsv) list" where
  "deepClone VNull = Inr VNull"
| "deepClone (VBool b) = Inr (VBool b)"
| "deepClone (VNum n) = Inr (VNum n)"
| "deepClone (VStr s) = Inr (VStr s)"
| "deepClone (VArr xs) =
     (case clone_items xs of Inl e \<Rightarrow> Inl e | Inr ys \<Rightarrow> Inr (VArr ys))"
| "deepClone (VObj pr kvs) =
     (if instanceof_Array (VObj pr kvs) then Inl Unmodelled
      else if has_enumerable (VObj pr kvs) \<and> \<not> inherits_hasOwnProperty (VObj pr kvs)
      then Inl TypeError
      else (case clone_properties kvs (ObjectPrototype, []) of
              Inl e \<Rightarrow> Inl e
            | Inr (cpr, ckvs) \<Rightarrow> Inr (VObj cpr ckvs)))"
| "clone_items [] = Inr []"
| "clone_items (x # xs) =
     (case deepClone x of
        Inl e \<Rightarrow> Inl e
      | Inr y \<Rightarrow> (case clone_items xs of Inl e \<Rightarrow> Inl e | Inr ys \<Rightarrow> Inr (y # ys)))"
| "clone_properties [] clonedObj = Inr clonedObj"
| "clone_properties (kv # kvs) clonedObj =
     (case deepClone (snd kv) of
        Inl e \<Rightarrow> Inl e
      | Inr c \<Rightarrow> clone_properties kvs (assign_property (fst kv) c clonedObj))"

text \<open>The decimal strings that are array indices: no sign, no leading zero.\<close>

definition digit_of :: "char \<Rightarrow> nat option" where
  "digit_of c = (let n = (of_char c :: nat) in if 48 \<le> n \<and> n \<le> 57 then Some (n - 48) else None)"

fun digits_value :: "nat \<Rightarrow> string \<Rightarrow> nat option" where
  "digits_value acc [] = Some acc"
| "digits_value acc (c # cs) =
     (case digit_of c of None \<Rightarrow> None | Some d \<Rightarrow> digits_value (10 * acc + d) cs)"

definition array_index :: "string \<Rightarrow> nat option" where
  "array_index k =
     (if k = [] \<or> (hd k = CHR ''0'' \<and> k \<noteq> ''0'') then None else digits_value 0 k)"

text \<open>
  What \<open>get\<close> can hold while it walks a path: a value of the state, the object
  \<open>Object.prototype\<close> or \<open>Array.prototype\<close>, or one of their function members. Which
  names these two prototypes define is the host's matter and a parameter of the model;
  \<open>__proto__\<close> and the \<open>length\<close> of \<open>Array.prototype\<close> are treated apart.
\<close>

datatype jsref = Val jsv | ObjectProto | ArrayProto | ObjectMember string | ArrayMember string

record js_host =
  object_members :: "string list"
  array_members :: "string list"

text \<open>The prototype of a value, as the getter of \<open>__proto__\<close> returns it.\<close>

fun prototype_of :: "jsv \<Rightarrow> jsref" where
  "prototype_of (VArr xs) = ArrayProto"
| "prototype_of (VObj ObjectPrototype kvs) = ObjectProto"
| "prototype_of (VObj NoPrototype kvs) = Val VNull"
| "prototype_of (VObj (Prototype p) kvs) = Val p"
| "prototype_of v = Val VNull"

text \<open>
  A lookup that has reached \<open>Object.prototype\<close>, or \<open>Array.prototype\<close>;
  \<open>receiver_proto\<close> is the prototype of the object the lookup started from.
\<close>

definition object_proto_get :: "js_host \<Rightarrow> jsref \<Rightarrow> string \<Rightarrow> jsref option" where
  "object_proto_get host receiver_proto key =
     (if key = ''__proto__'' then Some receiver_proto
      else if key \<in> set (object_members host) then Some (ObjectMember key)
      else None)"

definition array_proto_get :: "js_host \<Rightarrow> jsref \<Rightarrow> string \<Rightarrow> jsref option" where
  "array_proto_get host receiver_proto key =
     (if key = ''length'' then Some (Val (VNum 0))
      else if key \<in> set (array_members host) then Some (ArrayMember key)
      else object_proto_get host receiver_proto key)"

text \<open>The lookup of a key along the prototype chain, from the object \<open>v\<close> on.\<close>

fun chain_get :: "js_host \<Rightarrow> jsref \<Rightarrow> jsv \<Rightarrow> string \<Rightarrow> jsref option" where
  "chain_get host rp (VArr xs) key =
     (if key = ''length'' then Some (Val (VNum (of_nat (length xs))))
      else (case array_index key of
              None \<Rightarrow> array_proto_get host rp key
            | Some i \<Rightarrow> if i < length xs then Some (Val (xs ! i))
                        else array_proto_get host rp key))"
| "chain_get host rp (VObj pr kvs) key =
     (case map_of kvs key of
        Some v \<Rightarrow> Some (Val v)
      | None \<Rightarrow>
          (case pr of
             ObjectPrototype \<Rightarrow> object_proto_get host rp key
           | NoPrototype \<Rightarrow> None
           | Prototype p \<Rightarrow> chain_get host rp p key))"
| "chain_get host rp v key = None"

text \<open>\<open>current[key]\<close>, where \<open>current\<close> passed the test of \<open>get\<close>.\<close>

fun property :: "js_host \<Rightarrow> jsref \<Rightarrow> string \<Rightarrow> jsref option" where
  "property host (Val v) key = chain_get host (prototype_of v) v key"
| "property host ObjectProto key = object_proto_get host (Val VNull) key"
| "property host ArrayProto key = array_proto_get host ObjectProto key"
| "property host r key = None"

text \<open>\<open>typeof v === 'object'\<close>, which holds of \<open>null\<close> too.\<close>

fun typeof_object :: "jsv \<Rightarrow> bool" where
  "typeof_object VNull = True"
| "typeof_object (VArr xs) = True"
| "typeof_object (VObj pr kvs) = True"
| "typeof_object v = False"

text \<open>
  The test of \<open>get\<close> before each key: \<open>current\<close> is not \<open>null\<close> and its type is
  \<open>object\<close> (the type of a function member is \<open>function\<close>).
\<close>

fun traversable :: "jsref \<Rightarrow> bool" where
  "traversable (Val v) = (v \<noteq> VNull \<and> typeof_object v)"
| "traversable ObjectProto = True"
| "traversable ArrayProto = True"
| "traversable r = False"

text \<open>
  The loop of \<open>get\<close> over the keys: \<open>current\<close> is \<open>None\<close> when it is \<open>undefined\<close>,
  and so is the default.
\<close>

fun get_from :: "js_host \<Rightarrow> jsref option \<Rightarrow> string list \<Rightarrow> jsref option \<Rightarrow> jsref option" where
  "get_from host current [] defaultValue =
     (case current of None \<Rightarrow> defaultValue | Some r \<Rightarrow> Some r)"
| "get_from host current (key # keys) defaultValue =
     (case current of
        None \<Rightarrow> defaultValue
      | Some r \<Rightarrow>
          if \<not> traversable r then defaultValue
          else get_from host (property host r key) keys defaultValue)"

record store =
  store_state :: jsv
  history :: "jsv list"
  historyIndex :: int
  global_notifications :: nat

definition historyLimit :: nat where "historyLimit = 50"

definition get :: "js_host \<Rightarrow> store \<Rightarrow> string \<Rightarrow> jsref option \<Rightarrow> jsref option" where
  "get host s path defaultValue =
     get_from host (Some (Val (store_state s))) (split_dots path) defaultValue"

text \<open>\<open>saveToHistory\<close>: the clone is made first, so a throw leaves the store as it was.\<close>

definition saveToHistory :: "store \<Rightarrow> clone_error + store" where
  "saveToHistory s =
     (case deepClone (store_state s) of
        Inl e \<Rightarrow> Inl e
      | Inr stateCopy \<Rightarrow>
          let h = (if historyIndex s < int (length (history s)) - 1
                   then take (nat (historyIndex s + 1)) (history s) else history s);
              h1 = h @ [stateCopy];
              i1 = historyIndex s + 1
          in if length h1 > historyLimit
             then Inr (s\<lparr>history := tl h1, historyIndex := i1 - 1\<rparr>)
             else Inr (s\<lparr>history := h1, historyIndex := i1\<rparr>))"

text \<open>\<open>notifyGlobalChange\<close>: one more pass over the listeners of \<open>*\<close>.\<close>

definition notifyGlobalChange :: "store \<Rightarrow> store" where
  "notifyGlobalChange s = s\<lparr>global_notifications := global_notifications s + 1\<rparr>"

definition getState :: "store \<Rightarrow> clone_error + jsv" where
  "getState s = deepClone (store_state s)"

text \<open>
  \<open>setState(newState, options)\<close>; the two flags are \<open>options.history !== false\<close> and
  \<open>options.notify !== false\<close>. The result is the error thrown, if any, and the store
  as the call leaves it.
\<close>

definition setState :: "jsv \<Rightarrow> bool \<Rightarrow> bool \<Rightarrow> store \<Rightarrow> clone_error option \<times> store" where
  "setState newState with_history with_notify s =
     (if \<not> typeof_object newState then (None, s)
      else
        (case (if with_history then saveToHistory s else Inr s) of
           Inl e \<Rightarrow> (Some e, s)
         | Inr s1 \<Rightarrow>
             (case deepClone newState of
                Inl e \<Rightarrow> (Some e, s1)
              | Inr c \<Rightarrow>
                  let s2 = s1\<lparr>store_state := c\<rparr>
                  in (None, if with_notify then notifyGlobalChange s2 else s2))))"

text \<open>\<open>setState(getState(), options)\<close>: a throw of \<open>getState\<close> comes before the call.\<close>

definition round_trip :: "bool \<Rightarrow> bool \<Rightarrow> store \<Rightarrow> clone_error option \<times> store" where
  "round_trip with_history with_notify s =
     (case getState s of
        Inl e \<Rightarrow> (Some e, s)
      | Inr st \<Rightarrow> setState st with_history with_notify s)"

text \<open>The members of the two prototypes in ECMAScript 2015; a host may define more.\<close>

definition es_host :: js_host where
  "es_host = \<lparr>object_members = [''constructor'', ''hasOwnProperty'', ''isPrototypeOf'',
       ''propertyIsEnumerable'', ''toLocaleString'', ''toString'', ''valueOf'',
       ''__defineGetter__'', ''__defineSetter__'', ''__lookupGetter__'', ''__lookupSetter__''],
     array_members = [''constructor'', ''concat'', ''copyWithin'', ''entries'', ''every'',
       ''fill'', ''filter'', ''find'', ''findIndex'', ''forEach'', ''indexOf'', ''join'',
       ''keys'', ''lastIndexOf'', ''map'', ''pop'', ''push'', ''reduce'', ''reduceRight'',
       ''reverse'', ''shift'', ''slice'', ''some'', ''sort'', ''splice'', ''toLocaleString'',
       ''toString'', ''unshift'', ''values'']\<rparr>"

text \<open>An object literal, or an object that \<open>JSON.parse\<close> returns.\<close>

abbreviation obj :: "(string \<times> jsv) list \<Rightarrow> jsv" where
  "obj kvs \<equiv> VObj ObjectPrototype kvs"

text \<open>A cut of the default state of the store, with one plot.\<close>

definition demo_state :: jsv where
  "demo_state = obj
     [(''player'', obj [(''name'', VStr ''Nari''), (''level'', VNum 1),
         (''inventory'', obj [(''seeds'', obj [(''prehistoric-moss'', VNum 5)]),
                             (''resources'', obj [(''temporal-pulses'', VNum 100)])]),
         (''unlockedEras'', VArr [VStr ''prehistoric''])]),
      (''farm'', obj [(''plots'', VArr [obj [(''id'', VNum 0), (''plant'', VNull),
                                            (''state'', VStr ''empty'')]])]),
      (''time'', obj [(''currentEra'', VStr ''prehistoric''), (''previousEra'', VNull)])]"

definition demo_store :: store where
  "demo_store = \<lparr>store_state = demo_state, history = [], historyIndex = -1,
     global_notifications = 0\<rparr>"

text \<open>
  Two states that \<open>JSON.parse\<close> can return from a saved file: in the first an object
  has the own key \<open>__proto__\<close>, in the second the own key \<open>hasOwnProperty\<close>.
\<close>

definition proto_key_store :: store where
  "proto_key_store = \<lparr>store_state = obj [(''a'', obj [(''__proto__'', obj [(''x'', VNum 1)])])],
     history = [], historyIndex = -1, global_notifications = 0\<rparr>"


section \<open>Theorems\<close>

text \<open>
  C2, as stated: at \<open>now = plantedAt + 30000\<close> the new plot of scenario 1 has progress 1.0
  and stage 3. The code gives progress 4/5 and stage 2, because the nutrient factor of a
  new plot is 80 / 100.
\<close>

theorem C2_scenario_counterexample:
  "\<not> (\<exists>r. calculateGrowth moss_catalog 1 (fresh_plot 0 1000) moss_plant (1000 + 30000) = Some r
        \<and> progress r = 1 \<and> newStage r = 3)"
  by (simp add: calculateGrowth_def moss_catalog_def moss_data_def moss_plant_def
      fresh_plot_def null_as_zero_def Let_def)

text \<open>
  C2, amended: for every plot with water level 100 and nutrients 80 planted at \<open>t\<close>, a
  plant of 3 stages whose catalogue entry has grow time 30000, and growth multiplier 1,
  the growth computation at \<open>t + 30000\<close> yields progress 4/5 and stage 2, and the plant
  is not ready.
\<close>

theorem C2_scenario_amended:
  assumes "waterLevel p = 100" and "nutrients p = 80" and "plantedAt p = Some t"
    and "cat (ptype pl) = Some pd" and "pd_growTime pd = 30000" and "maxStages pl = 3"
  shows "\<exists>r. calculateGrowth cat 1 p pl (t + 30000) = Some r
           \<and> progress r = 4 / 5 \<and> newStage r = 2 \<and> \<not> isReady r"
  using assms by (simp add: calculateGrowth_def null_as_zero_def Let_def floor_eq_iff)

theorem C2_scenario_amended_witness:
  "\<exists>r. calculateGrowth moss_catalog 1 (fresh_plot 0 1000) moss_plant (1000 + 30000) = Some r
           \<and> progress r = 4 / 5 \<and> newStage r = 2 \<and> \<not> isReady r"
  using C2_scenario_amended [of "fresh_plot 0 1000" 1000 moss_catalog moss_plant moss_data]
  by (simp add: fresh_plot_def moss_catalog_def moss_plant_def moss_data_def)

subsection \<open>Acceleration (C1)\<close>

lemma find_update_first:
  "find (\<lambda>p. plot_id p = i) ps = Some p \<Longrightarrow> plot_id (apply_updates p u) = i \<Longrightarrow>
   find (\<lambda>p. plot_id p = i) (update_first i u ps) = Some (apply_updates p u)"
  by (induction ps) (auto split: if_splits)

lemma apply_updates_id: "plot_id (apply_updates p u) = plot_id p"
  by (simp add: apply_updates_def)

lemma getPlot_id: "getPlot g i = Some p \<Longrightarrow> plot_id p = i"
  by (auto simp: getPlot_def find_Some_iff)

lemma getPlot_updatePlot:
  "getPlot g i = Some p \<Longrightarrow> getPlot (updatePlot i u g) i = Some (apply_updates p u)"
  using getPlot_id[of g i p]
  by (simp add: getPlot_def updatePlot_def find_update_first apply_updates_id)

lemma shift_plantedAt_growth:
  "calculateGrowth cat mult (p\<lparr>plantedAt := Some (t - d)\<rparr>) pl now
     = calculateGrowth cat mult (p\<lparr>plantedAt := Some t\<rparr>) pl (now + d)"
  by (cases "cat (ptype pl)") (simp_all add: calculateGrowth_def null_as_zero_def Let_def algebra_simps)

text \<open>
  C1, as stated: the progress that \<open>accelerateGrowth(plotId, D)\<close> reports is the one the
  tick's growth formula gives after \<open>D\<close> milliseconds. On the demo farm, accelerating
  plot 0 by 15000 ms right after planting reports 50 (a percentage of the base grow time),
  while the growth formula after 15000 ms gives 2/5, that is 40 percent: the report leaves
  out the water factor, the nutrient factor and the growth multiplier.
\<close>

theorem C1_acceleration_counterexample:
  "fst (accelerateGrowth moss_catalog 0 15000 1000 demo_game) = Some (Finite 50)
   \<and> map_option progress
        (calculateGrowth moss_catalog (growthMultiplier demo_game) (fresh_plot 0 1000) moss_plant
           (1000 + 15000)) = Some (2 / 5)
   \<and> getPlot demo_game 0 = Some (fresh_plot 0 1000)"
  by code_simp

text \<open>
  C1, amended: for a plot that holds a plant of a catalogued species with a non-zero
  grow time and has a non-zero \<open>plantedAt\<close>, \<open>accelerateGrowth(plotId, D)\<close> stores
  \<open>plantedAt - D\<close> in the plot and in the active plant and changes nothing else of the
  plots or the inventory, so that the growth computation of the tick on the stored plot
  at \<open>now\<close> equals the one on the plot before the call at \<open>now + D\<close>; it returns the
  value \<open>min(100, (now - newPlantedAt) / growTime * 100)\<close> and emits exactly one
  event, \<open>plant:accelerated\<close>, that carries this value, the duration and the time.
\<close>

theorem C1_acceleration_amended:
  assumes "getPlot g plotId = Some p" and "plant p = Some pl" and "cat (ptype pl) = Some pd"
    and "plantedAt p = Some t" and "t \<noteq> 0" and "pd_growTime pd \<noteq> 0"
  shows "fst (accelerateGrowth cat plotId d now g)
           = Some (Finite (min 100 (((now - (t - d)) / pd_growTime pd) * 100)))
       \<and> events (snd (accelerateGrowth cat plotId d now g))
           = events g @ [PlantAccelerated plotId
               (Finite (min 100 (((now - (t - d)) / pd_growTime pd) * 100))) d now]
       \<and> getPlot (snd (accelerateGrowth cat plotId d now g)) plotId
           = Some (p\<lparr>plantedAt := Some (t - d)\<rparr>)
       \<and> plots (snd (accelerateGrowth cat plotId d now g))
           = update_first plotId (no_updates\<lparr>u_plantedAt := Some (Some (t - d))\<rparr>) (plots g)
       \<and> map_of (activePlants (snd (accelerateGrowth cat plotId d now g))) plotId
           = map_option (\<lambda>ap. ap\<lparr>ap_plantedAt := Some (t - d)\<rparr>) (map_of (activePlants g) plotId)
       \<and> inv_seeds (snd (accelerateGrowth cat plotId d now g)) = inv_seeds g
       \<and> inv_resources (snd (accelerateGrowth cat plotId d now g)) = inv_resources g
       \<and> calculateGrowth cat mult (p\<lparr>plantedAt := Some (t - d)\<rparr>) pl' now
           = calculateGrowth cat mult p pl' (now + d)"
proof -
  let ?u = "no_updates\<lparr>u_plantedAt := Some (Some (t - d))\<rparr>"
  let ?v = "Finite (min 100 (((now - (t - d)) / pd_growTime pd) * 100))"
  let ?g1 = "updatePlot plotId ?u g"
  let ?g2 = "(case map_of (activePlants ?g1) plotId of
                None \<Rightarrow> ?g1
              | Some ap \<Rightarrow> ?g1\<lparr>activePlants := AList.update plotId
                    (ap\<lparr>ap_plantedAt := Some (t - d)\<rparr>) (activePlants ?g1)\<rparr>)"
  have rp: "reported_progress (now - (t - d)) (pd_growTime pd) = ?v"
    using assms(6) by (simp add: reported_progress_def)
  have run: "accelerateGrowth cat plotId d now g
               = (Some ?v, emit (PlantAccelerated plotId ?v d now) ?g2)"
    using assms(1-5) rp by (simp add: accelerateGrowth_def or_now_def Let_def)
  have au: "apply_updates p ?u = p\<lparr>plantedAt := Some (t - d)\<rparr>"
    by (simp add: apply_updates_def no_updates_def)
  have g1: "getPlot ?g1 plotId = Some (p\<lparr>plantedAt := Some (t - d)\<rparr>)"
    using getPlot_updatePlot[OF assms(1), of ?u] au by simp
  have g2_plots: "plots ?g2 = plots ?g1" by (simp split: option.splits)
  have g2_first: "plots ?g2 = update_first plotId ?u (plots g)"
    using g2_plots by (simp add: updatePlot_def)
  have g2_events: "events ?g2 = events g" by (simp add: updatePlot_def split: option.splits)
  have g2_seeds: "inv_seeds ?g2 = inv_seeds g" by (simp add: updatePlot_def split: option.splits)
  have g2_res: "inv_resources ?g2 = inv_resources g"
    by (simp add: updatePlot_def split: option.splits)
  have g1_active: "activePlants ?g1 = activePlants g" by (simp add: updatePlot_def)
  have g2_active: "map_of (activePlants ?g2) plotId
      = map_option (\<lambda>ap. ap\<lparr>ap_plantedAt := Some (t - d)\<rparr>) (map_of (activePlants g) plotId)"
    by (cases "map_of (activePlants g) plotId") (simp_all add: g1_active update_conv')
  have p_eq: "p\<lparr>plantedAt := Some t\<rparr> = p" using assms(4) by simp
  have growth: "calculateGrowth cat mult (p\<lparr>plantedAt := Some (t - d)\<rparr>) pl' now
           = calculateGrowth cat mult p pl' (now + d)"
    using shift_plantedAt_growth[where cat=cat and mult=mult and p=p and t=t and d=d
        and pl=pl' and now=now] p_eq by simp
  have stored: "getPlot (emit (PlantAccelerated plotId ?v d now) ?g2) plotId
      = Some (p\<lparr>plantedAt := Some (t - d)\<rparr>)"
    using g1 g2_plots by (simp add: getPlot_def emit_def)
  show ?thesis
    unfolding run using stored g2_first g2_events g2_seeds g2_res g2_active growth
    by (simp add: emit_def)
qed

theorem C1_acceleration_amended_witness:
  "fst (accelerateGrowth moss_catalog 0 15000 1000 demo_game) = Some (Finite 50)
   \<and> events (snd (accelerateGrowth moss_catalog 0 15000 1000 demo_game))
       = events demo_game @ [PlantAccelerated 0 (Finite 50) 15000 1000]
   \<and> getPlot (snd (accelerateGrowth moss_catalog 0 15000 1000 demo_game)) 0
       = Some ((fresh_plot 0 1000)\<lparr>plantedAt := Some (1000 - 15000)\<rparr>)
   \<and> plots (snd (accelerateGrowth moss_catalog 0 15000 1000 demo_game))
       = update_first 0 (no_updates\<lparr>u_plantedAt := Some (Some (1000 - 15000))\<rparr>)
           (plots demo_game)
   \<and> map_of (activePlants (snd (accelerateGrowth moss_catalog 0 15000 1000 demo_game))) 0
       = map_option (\<lambda>ap. ap\<lparr>ap_plantedAt := Some (1000 - 15000)\<rparr>)
           (map_of (activePlants demo_game) 0)
   \<and> inv_seeds (snd (accelerateGrowth moss_catalog 0 15000 1000 demo_game)) = inv_seeds demo_game
   \<and> inv_resources (snd (accelerateGrowth moss_catalog 0 15000 1000 demo_game))
       = inv_resources demo_game
   \<and> calculateGrowth moss_catalog 1 ((fresh_plot 0 1000)\<lparr>plantedAt := Some (1000 - 15000)\<rparr>)
        moss_plant 1000
       = calculateGrowth moss_catalog 1 (fresh_plot 0 1000) moss_plant (1000 + 15000)"
proof -
  have h1: "getPlot demo_game 0 = Some (fresh_plot 0 1000)" by code_simp
  have h2: "plant (fresh_plot 0 1000) = Some moss_plant" by (simp add: fresh_plot_def)
  have h3: "moss_catalog (ptype moss_plant) = Some moss_data"
    by (simp add: moss_catalog_def moss_plant_def)
  have h4: "plantedAt (fresh_plot 0 1000) = Some 1000" by (simp add: fresh_plot_def)
  have h5: "(1000::rat) \<noteq> 0" by simp
  have h6: "pd_growTime moss_data \<noteq> 0" by (simp add: moss_data_def)
  show ?thesis
    using h1 h2 h3 h4 h5 h6
      C1_acceleration_amended[where g=demo_game and plotId=0 and p="fresh_plot 0 1000"
        and pl=moss_plant and cat=moss_catalog and pd=moss_data and t=1000 and d=15000
        and now=1000 and mult=1 and pl'=moss_plant]
    by (simp add: moss_data_def)
qed

text \<open>At grow time 0 the report is 100 once any time has elapsed.\<close>

lemma reported_progress_zero_growTime:
  "reported_progress 15000 0 = Finite 100 \<and> reported_progress 0 0 = NotANumber
   \<and> reported_progress (-1) 0 = NegInfinity"
  by (simp add: reported_progress_def)

subsection \<open>Harvest and the seed inventory (C10)\<close>

lemma seed_loop_empty:
  "object_entries (or_empty_object (rw_seeds (calculateHarvestRewards pl r1 r2))) = []"
  by (simp add: calculateHarvestRewards_def or_empty_object_def object_entries_def Let_def)

lemma applyHarvestRewards_seeds:
  "inv_seeds (applyHarvestRewards (calculateHarvestRewards pl r1 r2) g) = inv_seeds g"
  by (simp add: applyHarvestRewards_def seed_loop_empty Let_def)

lemma updatePlot_seeds: "inv_seeds (updatePlot i u g) = inv_seeds g"
  by (simp add: updatePlot_def)

lemma emit_seeds: "inv_seeds (emit e g) = inv_seeds g"
  by (simp add: emit_def)

text \<open>
  C10: the seeds component of the harvest rewards is a number, so the loop over its
  entries runs zero times, and a call of \<open>harvestPlant\<close> leaves every seed count of the
  inventory as it was.
\<close>

theorem C10_harvest_keeps_seeds:
  "object_entries (or_empty_object (rw_seeds (calculateHarvestRewards pl r1 r2))) = []
   \<and> inv_seeds (snd (harvestPlant plotId r1 r2 now g)) = inv_seeds g"
  by (simp add: seed_loop_empty harvestPlant_def Let_def emit_seeds updatePlot_seeds
      applyHarvestRewards_seeds split: option.splits)


subsection \<open>What a tick does to the plots\<close>

lemma tick_step_refl: "tick_step p p" by (simp add: tick_step_def)
lemma tick_step_trans: "tick_step p q \<Longrightarrow> tick_step q r \<Longrightarrow> tick_step p r"
  by (auto simp: tick_step_def)

lemma update_first_rel:
  assumes "find (\<lambda>p. plot_id p = i) ps = Some p" and "R p (apply_updates p u)" and "\<And>q. R q q"
  shows "list_all2 R ps (update_first i u ps)"
  using assms
proof (induction ps)
  case Nil then show ?case by simp
next
  case (Cons a ps)
  then show ?case by (auto simp: list_all2_same)
qed

lemma update_first_none:
  "find (\<lambda>p. plot_id p = i) ps = None \<Longrightarrow> update_first i u ps = ps"
  by (induction ps) (auto split: if_splits)

lemma decay_water_fields:
  "decay_water g now p (u, ap, n) = (u', ap', n') \<Longrightarrow>
     u_plant u' = u_plant u \<and> u_state u' = u_state u \<and> u_growthStage u' = u_growthStage u"
  by (auto simp: decay_water_def Let_def split: if_splits)

lemma decay_nutrients_fields:
  "decay_nutrients g now p (u, ap, n) = (u', ap', n') \<Longrightarrow>
     u_plant u' = u_plant u \<and> u_state u' = u_state u \<and> u_growthStage u' = u_growthStage u"
  by (auto simp: decay_nutrients_def Let_def split: if_splits)

lemma grow_fields:
  assumes "grow cat g now i p (u, ap, n) = Some ((u', ap', n'), evs)"
  shows "u_plant u' = u_plant u
     \<and> (u_state u' = u_state u \<or> (u_state u' = Some Ready \<and> (state p = Planted \<or> state p = Growing)))
     \<and> (u_growthStage u' = u_growthStage u \<or> (\<exists>s. u_growthStage u' = Some s \<and> growthStage p < s))"
proof (cases "state p = Planted \<or> state p = Growing")
  case False
  then show ?thesis using assms by (simp add: grow_def)
next
  case True
  then obtain r where r: "calculateGrowth cat (growthMultiplier g) p (ap_plant ap) now = Some r"
    using assms by (auto simp: grow_def split: option.splits)
  have sc: "stageChanged r \<Longrightarrow> growthStage p < newStage r"
    using r by (auto simp: calculateGrowth_def Let_def split: option.splits)
  show ?thesis
  proof (cases "stageChanged r")
    case True
    with assms r \<open>state p = Planted \<or> state p = Growing\<close> sc show ?thesis
      by (cases "isReady r \<and> state p \<noteq> Ready") (auto simp: grow_def)
  next
    case False
    with assms r \<open>state p = Planted \<or> state p = Growing\<close> show ?thesis
      by (cases "isReady r \<and> state p \<noteq> Ready") (auto simp: grow_def)
  qed
qed

lemma apply_updates_tick:
  assumes "u_plant u = None"
    and "u_state u = None \<or> (u_state u = Some Ready \<and> (state p = Planted \<or> state p = Growing))"
    and "u_growthStage u = None \<or> (\<exists>s. u_growthStage u = Some s \<and> growthStage p < s)"
  shows "tick_step p (apply_updates p u)"
  using assms by (auto simp: tick_step_def apply_updates_def)

lemma update_entry_rel:
  "list_all2 tick_step (plots g) (plots (snd (update_entry cat now i g)))"
proof (cases "map_of (activePlants g) i")
  case None then show ?thesis by (simp add: update_entry_def list_all2_same tick_step_refl)
next
  case (Some ap0)
  show ?thesis
  proof (cases "getPlot g i")
    case None then show ?thesis using Some by (simp add: update_entry_def list_all2_same tick_step_refl)
  next
    case (Some p)
    obtain u1 ap1 n1 where l1: "decay_water g now p (no_updates, ap0, False) = (u1, ap1, n1)"
      by (cases "decay_water g now p (no_updates, ap0, False)") auto
    obtain u2 ap2 n2 where l2: "decay_nutrients g now p (u1, ap1, n1) = (u2, ap2, n2)"
      by (cases "decay_nutrients g now p (u1, ap1, n1)") auto
    have f2: "u_plant u2 = None \<and> u_state u2 = None \<and> u_growthStage u2 = None"
      using decay_water_fields[OF l1] decay_nutrients_fields[OF l2] by (simp add: no_updates_def)
    show ?thesis
    proof (cases "grow cat g now i p (u2, ap2, n2)")
      case None
      then show ?thesis using \<open>map_of (activePlants g) i = Some ap0\<close> Some l1 l2
        by (simp add: update_entry_def list_all2_same tick_step_refl)
    next
      case (Some res)
      obtain u ap n evs where res: "res = ((u, ap, n), evs)" by (cases res) auto
      have ts: "tick_step p (apply_updates p u)"
        using grow_fields[OF Some[unfolded res]] f2 by (intro apply_updates_tick) auto
      have "list_all2 tick_step (plots g) (update_first i u (plots g))"
        using update_first_rel[of i "plots g" p tick_step u] ts \<open>getPlot g i = Some p\<close>
        by (simp add: getPlot_def tick_step_refl)
      then show ?thesis using \<open>map_of (activePlants g) i = Some ap0\<close> \<open>getPlot g i = Some p\<close> l1 l2 Some res
        by (simp add: update_entry_def updatePlot_def list_all2_same tick_step_refl Let_def)
    qed
  qed
qed

lemma list_all2_tick_trans:
  "list_all2 tick_step xs ys \<Longrightarrow> list_all2 tick_step ys zs \<Longrightarrow> list_all2 tick_step xs zs"
  by (rule list_all2_trans[of tick_step tick_step tick_step]) (auto intro: tick_step_trans)

lemma update_loop_rel:
  "list_all2 tick_step (plots g) (plots (snd (update_loop cat now ks g)))"
proof (induction ks arbitrary: g)
  case Nil then show ?case by (simp add: list_all2_same tick_step_refl)
next
  case (Cons k ks)
  obtain b g' where e: "update_entry cat now k g = (b, g')" by (cases "update_entry cat now k g") auto
  have r1: "list_all2 tick_step (plots g) (plots g')" using update_entry_rel[of g cat now k] e by simp
  show ?case
  proof (cases b)
    case True then show ?thesis using e r1 by simp
  next
    case False
    then show ?thesis using e r1 Cons.IH[of g'] by (auto intro: list_all2_tick_trans)
  qed
qed

lemma update_rel: "list_all2 tick_step (plots g) (plots (snd (update cat dt now g)))"
proof -
  let ?g1 = "g\<lparr>updateTimer := updateTimer g + dt\<rparr>"
  have "list_all2 tick_step (plots ?g1) (plots (snd (update_loop cat now (map fst (activePlants ?g1)) ?g1)))"
    by (rule update_loop_rel)
  then show ?thesis
    by (auto simp: update_def updatePlants_def Let_def list_all2_same tick_step_refl split: prod.splits bool.splits)
qed

lemma ticks_rel: "list_all2 tick_step (plots g) (plots (ticks cat ts g))"
proof (induction ts arbitrary: g)
  case Nil then show ?case by (simp add: ticks_def list_all2_same tick_step_refl)
next
  case (Cons t ts)
  obtain dt now where t: "t = (dt, now)" by (cases t) auto
  have "ticks cat (t # ts) g = ticks cat ts (snd (update cat dt now g))"
    by (simp add: ticks_def t)
  then show ?case using Cons.IH[of "snd (update cat dt now g)"] update_rel[of g cat dt now]
    by (auto intro: list_all2_tick_trans)
qed


lemma tick_step_occupancy: "tick_step p q \<Longrightarrow> occupancy_ok p \<Longrightarrow> occupancy_ok q"
  by (auto simp: tick_step_def occupancy_ok_def)

lemma list_all2_occupancy:
  "list_all2 tick_step xs ys \<Longrightarrow> list_all occupancy_ok xs \<Longrightarrow> list_all occupancy_ok ys"
  by (induction rule: list_all2_induct) (auto intro: tick_step_occupancy)

lemma update_first_pred:
  assumes "find (\<lambda>p. plot_id p = i) ps = Some p" and "P (apply_updates p u)" and "list_all P ps"
  shows "list_all P (update_first i u ps)"
  using assms by (induction ps) (auto split: if_splits)

lemma find_list_all: "find Q ps = Some p \<Longrightarrow> list_all P ps \<Longrightarrow> P p"
  by (induction ps) (auto split: if_splits)

lemma plantSeed_occupancy:
  assumes "list_all occupancy_ok (plots g)"
  shows "list_all occupancy_ok (plots (snd (plantSeed cat i seedType now g)))"
proof (cases "getPlot g i")
  case None then show ?thesis using assms by (simp add: plantSeed_def emit_def)
next
  case (Some p)
  have "list_all occupancy_ok (update_first i u (plots g))"
    if "u_plant u = Some (Some pl)" "u_state u = Some Planted" for u pl
    using Some assms that
    by (intro update_first_pred[of i _ p]) (auto simp: getPlot_def occupancy_ok_def apply_updates_def)
  then show ?thesis using Some assms
    by (auto simp: plantSeed_def emit_def updatePlot_def Let_def split: option.splits)
qed

lemma waterPlant_occupancy:
  assumes "list_all occupancy_ok (plots g)"
  shows "list_all occupancy_ok (plots (snd (waterPlant i now g)))"
proof (cases "getPlot g i")
  case None then show ?thesis using assms by (simp add: waterPlant_def)
next
  case (Some p)
  have ok: "occupancy_ok p" using Some assms by (auto simp: getPlot_def dest: find_list_all)
  have "list_all occupancy_ok (update_first i u (plots g))"
    if "u_plant u = None" "u_state u = None" for u
    using Some assms that ok
    by (intro update_first_pred[of i _ p]) (auto simp: getPlot_def occupancy_ok_def apply_updates_def)
  then show ?thesis using Some assms
    by (auto simp: waterPlant_def emit_def updatePlot_def Let_def no_updates_def split: option.splits)
qed

lemma harvestPlant_occupancy:
  assumes "list_all occupancy_ok (plots g)"
  shows "list_all occupancy_ok (plots (snd (harvestPlant i r1 r2 now g)))"
proof (cases "getPlot g i")
  case None then show ?thesis using assms by (simp add: harvestPlant_def emit_def)
next
  case (Some p)
  have "list_all occupancy_ok (update_first i u (plots g))"
    if "u_plant u = Some None" "u_state u = Some Empty" for u
    using Some assms that
    by (intro update_first_pred[of i _ p]) (auto simp: getPlot_def occupancy_ok_def apply_updates_def)
  then show ?thesis using Some assms
    by (auto simp: harvestPlant_def emit_def updatePlot_def Let_def applyHarvestRewards_def
        split: option.splits)
qed

lemma accelerateGrowth_occupancy:
  assumes "list_all occupancy_ok (plots g)"
  shows "list_all occupancy_ok (plots (snd (accelerateGrowth cat i d now g)))"
proof (cases "getPlot g i")
  case None then show ?thesis using assms by (simp add: accelerateGrowth_def)
next
  case (Some p)
  have ok: "occupancy_ok p" using Some assms by (auto simp: getPlot_def dest: find_list_all)
  have "list_all occupancy_ok (update_first i u (plots g))"
    if "u_plant u = None" "u_state u = None" for u
    using Some assms that ok
    by (intro update_first_pred[of i _ p]) (auto simp: getPlot_def occupancy_ok_def apply_updates_def)
  then show ?thesis using Some assms
    by (auto simp: accelerateGrowth_def emit_def updatePlot_def Let_def no_updates_def split: option.splits)
qed

lemma exec_op_occupancy:
  "list_all occupancy_ok (plots g) \<Longrightarrow> list_all occupancy_ok (plots (exec_op cat op g))"
  by (cases op)
    (auto intro: plantSeed_occupancy waterPlant_occupancy harvestPlant_occupancy
      accelerateGrowth_occupancy list_all2_occupancy[OF update_rel])


lemma run_ops_occupancy:
  "list_all occupancy_ok (plots g) \<Longrightarrow> list_all occupancy_ok (plots (run_ops cat ops g))"
  unfolding run_ops_def
  by (induction ops arbitrary: g) (auto intro: exec_op_occupancy)

text \<open>The plots of the default state satisfy the invariant, and so does every farm
  reached from them.\<close>

lemma initial_plots_occupancy: "list_all occupancy_ok initial_plots"
  by (simp add: initial_plots_def list_all_iff occupancy_ok_def empty_plot_def)

lemma reachable_occupancy:
  "plots g = initial_plots \<Longrightarrow> list_all occupancy_ok (plots (run_ops cat ops g))"
  using run_ops_occupancy[of g cat ops] initial_plots_occupancy by simp

text \<open>
  C4: when every plot satisfies the occupancy invariant (a plant is present exactly in
  the states planted, growing and ready), every plot satisfies it after any run of
  \<open>plantSeed\<close>, \<open>waterPlant\<close>, \<open>harvestPlant\<close>, \<open>accelerateGrowth\<close> and
  \<open>update\<close>, hence after each single operation.
\<close>

theorem C4_occupancy_invariant:
  "list_all occupancy_ok (plots g) \<Longrightarrow> list_all occupancy_ok (plots (run_ops cat ops g))"
  by (rule run_ops_occupancy)

theorem C4_occupancy_invariant_witness:
  "list_all occupancy_ok (plots demo_game)
   \<and> list_all occupancy_ok (plots (run_ops moss_catalog
        [PlantSeed 1 ''prehistoric-moss'' 2000, WaterPlant 0 3000, Update 1000 50000,
         HarvestPlant 0 (1 / 2) (1 / 2) 60000] demo_game))"
proof -
  have h: "list_all occupancy_ok (plots demo_game)" by code_simp
  show ?thesis
    using h C4_occupancy_invariant[OF h, of moss_catalog
        "[PlantSeed 1 ''prehistoric-moss'' 2000, WaterPlant 0 3000, Update 1000 50000,
          HarvestPlant 0 (1 / 2) (1 / 2) 60000]"]
    by simp
qed

lemma demo_run_states:
  "map state (plots (run_ops moss_catalog
     [PlantSeed 1 ''prehistoric-moss'' 2000, WaterPlant 0 3000, Update 1000 50000,
      HarvestPlant 0 (1 / 2) (1 / 2) 60000] demo_game)) = [Empty, Ready]"
  by code_simp

text \<open>
  C5: repeated calls of the periodic tick never decrease the growth stage of a plot
  (whatever its state, so in particular while it is planted or growing); the plots keep
  their positions and ids.
\<close>

theorem C5_growth_stage_monotone:
  assumes "i < length (plots g)"
  shows "length (plots (ticks cat ts g)) = length (plots g)
       \<and> plot_id (plots (ticks cat ts g) ! i) = plot_id (plots g ! i)
       \<and> growthStage (plots g ! i) \<le> growthStage (plots (ticks cat ts g) ! i)"
proof -
  have r: "list_all2 tick_step (plots g) (plots (ticks cat ts g))" by (rule ticks_rel)
  then have len: "length (plots (ticks cat ts g)) = length (plots g)"
    by (simp add: list_all2_lengthD)
  from r assms have "tick_step (plots g ! i) (plots (ticks cat ts g) ! i)"
    by (rule list_all2_nthD)
  then show ?thesis using len by (simp add: tick_step_def)
qed

theorem C5_growth_stage_monotone_witness:
  "(0::nat) < length (plots demo_game)
   \<and> length (plots (ticks moss_catalog [(1000, 20000), (1000, 21000)] demo_game))
       = length (plots demo_game)
   \<and> plot_id (plots (ticks moss_catalog [(1000, 20000), (1000, 21000)] demo_game) ! 0)
       = plot_id (plots demo_game ! 0)
   \<and> growthStage (plots demo_game ! 0)
       \<le> growthStage (plots (ticks moss_catalog [(1000, 20000), (1000, 21000)] demo_game) ! 0)"
proof -
  have h: "(0::nat) < length (plots demo_game)" by (simp add: demo_game_def)
  show ?thesis
    using h C5_growth_stage_monotone[OF h, of moss_catalog "[(1000, 20000), (1000, 21000)]"]
    by simp
qed

lemma demo_tick_stages:
  "map growthStage (plots (ticks moss_catalog [(1000, 20000)] demo_game)) = [1, 0]"
  by code_simp

subsection \<open>Travel (C3)\<close>

text \<open>
  C3, as stated: whenever \<open>travelTo\<close> returns false, the balance of temporal pulses and
  \<open>time.currentEra\<close> are as before the call. When the effect sequence throws, the call
  returns false after the cost of 10 pulses was deducted (100 before, 90 after); when the
  change of theme throws, it returns false after \<open>time.currentEra\<close> was set to the
  target era.
\<close>

theorem C3_travel_counterexample:
  "\<not> fst (travelTo ''egyptian'' EffectsThrow 6000 egypt_open)
   \<and> inv_get (st_resources egypt_open) ''temporal-pulses'' = 100
   \<and> inv_get (st_resources (snd (travelTo ''egyptian'' EffectsThrow 6000 egypt_open)))
        ''temporal-pulses'' = 90
   \<and> \<not> fst (travelTo ''egyptian'' ThemeThrows 6000 egypt_open)
   \<and> st_currentEra egypt_open = ''prehistoric''
   \<and> st_currentEra (snd (travelTo ''egyptian'' ThemeThrows 6000 egypt_open)) = ''egyptian''"
  by code_simp

text \<open>
  C3, amended: when \<open>travelTo\<close> is refused by one of its precondition checks (already
  travelling, same era, unknown era, era locked, cooldown active, too few pulses), it
  returns false and the resources, the current era of the system and \<open>time.currentEra\<close>
  are unchanged.
\<close>

theorem C3_travel_refused_atomic:
  assumes "travel_refused eraId s"
  shows "\<not> fst (travelTo eraId fault now s) \<and> st_resources (snd (travelTo eraId fault now s)) = st_resources s
     \<and> currentEra (snd (travelTo eraId fault now s)) = currentEra s
     \<and> st_currentEra (snd (travelTo eraId fault now s)) = st_currentEra s"
  using assms
  by (cases "map_of (eras s) eraId")
     (auto simp: travel_refused_def travelTo_def emit_travel_def)

theorem C3_travel_refused_atomic_witness:
  "travel_refused ''egyptian'' initial_tts
   \<and> \<not> fst (travelTo ''egyptian'' NoFault 6000 initial_tts)
   \<and> st_resources (snd (travelTo ''egyptian'' NoFault 6000 initial_tts)) = st_resources initial_tts
   \<and> currentEra (snd (travelTo ''egyptian'' NoFault 6000 initial_tts)) = currentEra initial_tts
   \<and> st_currentEra (snd (travelTo ''egyptian'' NoFault 6000 initial_tts)) = st_currentEra initial_tts"
proof -
  have h: "travel_refused ''egyptian'' initial_tts" by code_simp
  show ?thesis using h C3_travel_refused_atomic[OF h, of NoFault 6000] by simp
qed

text \<open>Without a throw the precondition checks are the only way to fail.\<close>

lemma travel_fails_without_throw:
  assumes "\<not> fst (travelTo eraId NoFault now s)"
  shows "travel_refused eraId s"
  using assms
  by (cases "map_of (eras s) eraId")
     (auto simp: travel_refused_def travelTo_def Let_def split: if_splits)

lemma travel_succeeds_demo: "fst (travelTo ''egyptian'' NoFault 6000 egypt_open)
  \<and> inv_get (st_resources (snd (travelTo ''egyptian'' NoFault 6000 egypt_open))) ''temporal-pulses'' = 90
  \<and> currentEra (snd (travelTo ''egyptian'' NoFault 6000 egypt_open)) = ''egyptian''"
  by code_simp


subsection \<open>Unlocking of eras (C6)\<close>

lemma map_of_update_other:
  "k \<noteq> k' \<Longrightarrow> map_of (AList.update k v al) k' = map_of al k'"
  by (simp add: update_conv')

lemma unlockEra_frozen:
  assumes "unlock_frozen eraId evs n s"
  shows "unlock_frozen eraId evs n (unlockEra k now s)"
proof (cases "map_of (eras s) k")
  case None then show ?thesis using assms by (simp add: unlockEra_def)
next
  case (Some e)
  show ?thesis
  proof (cases "unlocked e")
    case True then show ?thesis using assms Some by (simp add: unlockEra_def)
  next
    case False
    then have ne: "k \<noteq> eraId" using assms Some by (auto simp: unlock_frozen_def era_unlocked_def)
    then show ?thesis using assms Some False
      by (auto simp: unlockEra_def unlock_frozen_def era_unlocked_def unlock_events_def
          emit_travel_def Let_def map_of_update_other)
  qed
qed

lemma check_era_frozen:
  assumes "unlock_frozen eraId evs n s"
  shows "unlock_frozen eraId evs n (check_era h now k s)"
  using assms unlockEra_frozen[OF assms, of k now]
  by (auto simp: check_era_def Let_def split: option.splits)

lemma fold_check_era_frozen:
  "unlock_frozen eraId evs n s \<Longrightarrow> unlock_frozen eraId evs n (fold (check_era h now) ks s)"
  by (induction ks arbitrary: s) (auto intro: check_era_frozen)

lemma checkEraUnlocks_frozen:
  "unlock_frozen eraId evs n s \<Longrightarrow> unlock_frozen eraId evs n (checkEraUnlocks h now s)"
  by (simp add: checkEraUnlocks_def fold_check_era_frozen)

lemma frozen_frame:
  assumes "unlock_frozen eraId evs n s" and "eras s' = eras s"
    and "st_unlockedEras s' = st_unlockedEras s"
    and "unlock_events eraId s' = unlock_events eraId s"
  shows "unlock_frozen eraId evs n s'"
  using assms by (simp add: unlock_frozen_def era_unlocked_def)

lemma travel_caught_frame:
  "eras (snd (travel_caught s)) = eras s \<and> st_unlockedEras (snd (travel_caught s)) = st_unlockedEras s
   \<and> travel_events (snd (travel_caught s)) = travel_events s @ [TravelError]"
  by (simp add: travel_caught_def emit_travel_def)

lemma applyEraEffects_frame:
  "eras (applyEraEffects e s) = eras s \<and> st_unlockedEras (applyEraEffects e s) = st_unlockedEras s
   \<and> travel_events (applyEraEffects e s) = travel_events s"
  by (simp add: applyEraEffects_def split: option.splits)

lemma travelTo_frame:
  "eras (snd (travelTo k fault now s)) = eras s
   \<and> st_unlockedEras (snd (travelTo k fault now s)) = st_unlockedEras s
   \<and> filter (is_unlock_of eraId) (travel_events (snd (travelTo k fault now s)))
       = filter (is_unlock_of eraId) (travel_events s)"
  by (cases "map_of (eras s) k")
     (simp_all add: travelTo_def Let_def travel_caught_frame applyEraEffects_frame
       emit_travel_def)

lemma travelTo_frozen:
  "unlock_frozen eraId evs n s \<Longrightarrow> unlock_frozen eraId evs n (snd (travelTo k fault now s))"
  using travelTo_frame[of k fault now s eraId] by (auto intro: frozen_frame simp: unlock_events_def)

lemma applyMinigameRewards_frozen:
  "unlock_frozen eraId evs n s \<Longrightarrow> unlock_frozen eraId evs n (applyMinigameRewards rw s)"
  by (auto simp: applyMinigameRewards_def Let_def unlock_events_def split: option.splits
      intro: frozen_frame)

lemma onMinigameCompleted_frozen:
  "unlock_frozen eraId evs n s \<Longrightarrow> unlock_frozen eraId evs n (onMinigameCompleted m su rw now s)"
  by (auto simp: onMinigameCompleted_def split: option.splits
      intro: applyMinigameRewards_frozen unlockEra_frozen)

lemma exec_travel_frozen:
  "unlock_frozen eraId evs n s \<Longrightarrow> unlock_frozen eraId evs n (exec_travel op s)"
proof (cases op)
  case (TravelUpdate d)
  then show "unlock_frozen eraId evs n s \<Longrightarrow> ?thesis"
    by (auto simp: travel_update_def unlock_events_def intro: frozen_frame)
next
  case (Configure a b c)
  then show "unlock_frozen eraId evs n s \<Longrightarrow> ?thesis"
    by (auto simp: configure_def unlock_events_def intro: frozen_frame)
qed (auto intro: travelTo_frozen checkEraUnlocks_frozen unlockEra_frozen onMinigameCompleted_frozen)

lemma run_travel_frozen:
  "unlock_frozen eraId evs n s \<Longrightarrow> unlock_frozen eraId evs n (run_travel ops s)"
  unfolding run_travel_def
  by (induction ops arbitrary: s) (auto intro: exec_travel_frozen)

text \<open>
  C6: an unlocked era stays unlocked under every run of operations of the system, no run
  emits a further \<open>timetravel:era-unlocked\<close> event for it or adds its id to
  \<open>player.unlockedEras\<close> again, and \<open>unlockEra\<close> and the unlock check of
  \<open>checkEraUnlocks\<close> for this era leave the whole state as it is.
\<close>

theorem C6_unlock_monotone_idempotent:
  assumes "era_unlocked s eraId"
  shows "era_unlocked (run_travel ops s) eraId
     \<and> unlock_events eraId (run_travel ops s) = unlock_events eraId s
     \<and> count_list (st_unlockedEras (run_travel ops s)) eraId = count_list (st_unlockedEras s) eraId
     \<and> unlockEra eraId now s = s
     \<and> check_era harvested now eraId s = s"
proof -
  have "unlock_frozen eraId (unlock_events eraId s) (count_list (st_unlockedEras s) eraId) s"
    using assms by (simp add: unlock_frozen_def)
  then have "unlock_frozen eraId (unlock_events eraId s) (count_list (st_unlockedEras s) eraId)
      (run_travel ops s)"
    by (rule run_travel_frozen)
  moreover have "unlockEra eraId now s = s" "check_era harvested now eraId s = s"
    using assms by (auto simp: unlockEra_def check_era_def era_unlocked_def split: option.splits)
  ultimately show ?thesis by (simp add: unlock_frozen_def)
qed


theorem C6_unlock_monotone_idempotent_witness:
  "era_unlocked egypt_open ''egyptian''
   \<and> era_unlocked (run_travel [CheckEraUnlocks ''prehistoric-moss'' 7000,
         UnlockEra ''egyptian'' 7100, TravelTo ''egyptian'' NoFault 8000] egypt_open) ''egyptian''
   \<and> unlock_events ''egyptian'' (run_travel [CheckEraUnlocks ''prehistoric-moss'' 7000,
         UnlockEra ''egyptian'' 7100, TravelTo ''egyptian'' NoFault 8000] egypt_open)
       = unlock_events ''egyptian'' egypt_open
   \<and> count_list (st_unlockedEras (run_travel [CheckEraUnlocks ''prehistoric-moss'' 7000,
         UnlockEra ''egyptian'' 7100, TravelTo ''egyptian'' NoFault 8000] egypt_open)) ''egyptian''
       = count_list (st_unlockedEras egypt_open) ''egyptian''
   \<and> unlockEra ''egyptian'' 7100 egypt_open = egypt_open
   \<and> check_era ''prehistoric-moss'' 7100 ''egyptian'' egypt_open = egypt_open"
proof -
  have h: "era_unlocked egypt_open ''egyptian''" by code_simp
  show ?thesis
    using h C6_unlock_monotone_idempotent[OF h, of "[CheckEraUnlocks ''prehistoric-moss'' 7000,
         UnlockEra ''egyptian'' 7100, TravelTo ''egyptian'' NoFault 8000]" 7100 "''prehistoric-moss''"]
    by simp
qed

lemma first_unlock_demo:
  "\<not> era_unlocked initial_tts ''egyptian''
   \<and> unlock_events ''egyptian'' egypt_open = [EraUnlocked ''egyptian'' 5000]
   \<and> st_unlockedEras egypt_open = [''prehistoric'', ''egyptian'']"
  by code_simp

subsection \<open>Listeners registered with once (C7)\<close>

text \<open>
  C7: a listener registered with \<open>once\<close> is invoked at most one time over all later
  emissions of its topic. In the code the listener that \<open>once\<close> registers carries
  \<open>once: false\<close>, stays registered after the first emission and is invoked again by
  the second: two invocations after two emissions. A listener whose flag is set is
  removed by \<open>emit\<close> before its first call and is invoked once.
\<close>

theorem C7_once_listener_fires_twice:
  "fst (once ''plant:ready'' ''cb-once'' default_options
          (snd (on ''plant:ready'' ''cb-on'' default_options new_bus))) = 2
   \<and> map_option (map l_once) (map_of (bus_events once_bus) ''plant:ready'') = Some [False, False]
   \<and> invocations once_bus_1 ''plant:ready'' 2 = 1
   \<and> map_option (map l_id) (map_of (bus_events once_bus_1) ''plant:ready'') = Some [1, 2]
   \<and> invocations once_bus_2 ''plant:ready'' 2 = 2"
  by code_simp

lemma flagged_listener_fires_once:
  "invocations (snd (emit_bus (\<lambda>i. False) ''plant:ready'' flagged_bus)) ''plant:ready'' 1 = 1
   \<and> bus_events (snd (emit_bus (\<lambda>i. False) ''plant:ready'' flagged_bus)) = []
   \<and> \<not> fst (emit_bus (\<lambda>i. False) ''plant:ready''
             (snd (emit_bus (\<lambda>i. False) ''plant:ready'' flagged_bus)))"
  by code_simp

subsection \<open>Wildcard matching (C8)\<close>

text \<open>
  C8: the pattern \<open>a.*.c\<close> matches the path \<open>a.b.c\<close> and not \<open>a.b.c.d\<close>, and a
  subscriber of the pattern is notified of a change of the first and not of the second;
  in general a \<open>*\<close> segment matches exactly one segment of the path. The two examples
  hold. The general statement fails: the dots of the pattern reach the regular expression
  unescaped and match any character, so the pattern \<open>a.*.c\<close> of three segments also
  matches the path \<open>axb.c\<close> of two, which the segment-wise matching of the
  specification rejects, and its subscriber is notified of a change there.
\<close>

theorem C8_wildcard_dot_unescaped:
  "pathMatches ''a.b.c'' ''a.*.c'' = Some True
   \<and> pathMatches ''a.b.c.d'' ''a.*.c'' = Some False
   \<and> notifyChange [(''a.*.c'', [7])] ''a.b.c'' = [7]
   \<and> notifyChange [(''a.*.c'', [7])] ''a.b.c.d'' = []
   \<and> pathMatches ''axb.c'' ''a.*.c'' = Some True
   \<and> \<not> spec_pathMatches ''axb.c'' ''a.*.c''
   \<and> split_dots ''axb.c'' = [''axb'', ''c'']
   \<and> notifyChange [(''a.*.c'', [7])] ''axb.c'' = [7]"
  by code_simp

text \<open>What holds in general: the \<open>*\<close> matches every segment, whatever it contains.\<close>

lemma nondots_skip: "rmatch r rest \<Longrightarrow> rmatch (NonDots # r) rest"
  by (cases rest) auto

lemma nondots_segment:
  "CHR ''.'' \<notin> set seg \<Longrightarrow> rmatch r rest \<Longrightarrow> rmatch (NonDots # r) (seg @ rest)"
  by (induction seg) (auto intro: nondots_skip)

lemma star_matches_any_segment:
  assumes "CHR ''.'' \<notin> set seg"
  shows "pathMatches (''a.'' @ seg @ ''.c'') ''a.*.c'' = Some True"
proof -
  have r: "regex_of ''a.*.c'' = Some [Lit CHR ''a'', Dot, NonDots, Dot, Lit CHR ''c'']"
    by code_simp
  have "rmatch [Dot, Lit CHR ''c''] ''.c''" by (simp add: line_terminator_def)
  then have "rmatch [NonDots, Dot, Lit CHR ''c''] (seg @ ''.c'')"
    using assms by (rule nondots_segment[rotated])
  then have "rmatch [Lit CHR ''a'', Dot, NonDots, Dot, Lit CHR ''c''] (''a.'' @ seg @ ''.c'')"
    by (simp add: line_terminator_def)
  then show ?thesis unfolding pathMatches_def r by simp
qed

lemma farm_pattern_matches_farmer:
  "pathMatches ''farmer'' ''farm.*'' = Some True \<and> \<not> spec_pathMatches ''farmer'' ''farm.*''"
  by code_simp

subsection \<open>Round trip of the state (C9)\<close>


text \<open>How the two clones of the round trip lose the property.\<close>

lemma proto_key_clones:
  "getState proto_key_store = Inr (obj [(''a'', VObj (Prototype (obj [(''x'', VNum 1)])) [])])
   \<and> store_state (snd (round_trip True True proto_key_store)) = obj [(''a'', obj [])]
   \<and> get es_host proto_key_store ''a.x'' None = None
   \<and> map_option (\<lambda>c. get_from es_host (Some (Val c)) [''a'', ''x''] None) 
        (case getState proto_key_store of Inl e \<Rightarrow> None | Inr c \<Rightarrow> Some c) = Some (Some (Val (VNum 1)))"
  by code_simp

lemma demo_get_values:
  "get es_host demo_store ''player.inventory.seeds.prehistoric-moss'' None = Some (Val (VNum 5))
   \<and> get es_host demo_store ''farm.plots.0.state'' None = Some (Val (VStr ''empty''))
   \<and> get es_host demo_store ''farm.plots.length'' None = Some (Val (VNum 1))
   \<and> get es_host demo_store ''time.previousEra'' (Some (Val (VStr ''none''))) = Some (Val VNull)
   \<and> get es_host demo_store ''time.previousEra.x'' (Some (Val (VStr ''none'')))
       = Some (Val (VStr ''none''))
   \<and> get es_host demo_store ''player.level.x'' None = None
   \<and> get es_host demo_store ''player.constructor'' None = Some (ObjectMember ''constructor'')
   \<and> get es_host demo_store ''player.constructor.name'' None = None
   \<and> get es_host demo_store ''farm.plots.__proto__.length'' None = Some (Val (VNum 0))
   \<and> get es_host demo_store ''farm.__proto__.__proto__'' None = Some (Val VNull)
   \<and> history (snd (round_trip True True demo_store)) = [demo_state]"
  by code_simp







end
